theory Spec2Isabelle
  imports Complex_Main "HOL-Library.Multiset" "HOL-Library.Product_Lexorder"
    "HOL-Library.List_Lexorder" "HOL-Library.Char_ord"
begin

section \<open>Values shared by the cost calculator and the batch processor\<close>

text \<open>
  Python strings are lists of characters, compared as Python compares them (code point by
  code point, a proper prefix being smaller). Money and the other floats of the source are
  idealised as rationals: the theorems below speak about the formulas the code evaluates,
  not about rounding. A value of a \<^verbatim>\<open>Dict[str, Any]\<close> parameter set is an integer or a
  string, the two kinds the callers of the repository pass (\<^verbatim>\<open>duration\<close>,
  \<^verbatim>\<open>aspect_ratio\<close>).
\<close>

datatype pval = PInt int | PStr string

type_synonym params = "(string \<times> pval) list"

datatype error =
    FileNotFoundError string
  | ValueError string
  | TypeError

fun show_nat :: "nat \<Rightarrow> string" where
  "show_nat n =
     (if n < 10 then [''0123456789'' ! n]
      else show_nat (n div 10) @ [''0123456789'' ! (n mod 10)])"

declare show_nat.simps [simp del]

section \<open>\<^verbatim>\<open>core/launcher/cost_calculator.py\<close>\<close>

record model_info =
  name :: string
  cost_5s :: rat
  cost_10s :: rat
  cost_per_second :: rat
  max_duration :: int
  tier :: string
  quality :: string
  efficiency_score :: rat

definition model_pricing_table :: "(string \<times> model_info) list" where
  "model_pricing_table =
    [(''kling_21_standard'',
        \<lparr>name = ''Kling 2.1 Standard'', cost_5s = 25 / 100, cost_10s = 50 / 100,
         cost_per_second = 5 / 100, max_duration = 10, tier = ''Standard'',
         quality = ''High'', efficiency_score = 95 / 10\<rparr>),
     (''kling_21_pro'',
        \<lparr>name = ''Kling 2.1 Pro'', cost_5s = 45 / 100, cost_10s = 90 / 100,
         cost_per_second = 9 / 100, max_duration = 10, tier = ''Professional'',
         quality = ''Premium'', efficiency_score = 88 / 10\<rparr>),
     (''kling_21_master'',
        \<lparr>name = ''Kling 2.1 Master'', cost_5s = 70 / 100, cost_10s = 140 / 100,
         cost_per_second = 14 / 100, max_duration = 10, tier = ''Premium'',
         quality = ''Ultra'', efficiency_score = 75 / 10\<rparr>),
     (''kling_20_master'',
        \<lparr>name = ''Kling 2.0 Master'', cost_5s = 140 / 100, cost_10s = 280 / 100,
         cost_per_second = 28 / 100, max_duration = 10, tier = ''Legacy Premium'',
         quality = ''Premium'', efficiency_score = 60 / 10\<rparr>),
     (''kling_16_pro'',
        \<lparr>name = ''Kling 1.6 Pro'', cost_5s = 475 / 1000, cost_10s = 95 / 100,
         cost_per_second = 95 / 1000, max_duration = 10, tier = ''Legacy'',
         quality = ''Good'', efficiency_score = 72 / 10\<rparr>),
     (''luma_dream'',
        \<lparr>name = ''Luma Dream Machine'', cost_5s = 50 / 100, cost_10s = 90 / 100,
         cost_per_second = 10 / 100, max_duration = 9, tier = ''Alternative'',
         quality = ''High'', efficiency_score = 80 / 10\<rparr>),
     (''haiper_20'',
        \<lparr>name = ''Haiper 2.0'', cost_5s = 20 / 100, cost_10s = 40 / 100,
         cost_per_second = 4 / 100, max_duration = 10, tier = ''Budget'',
         quality = ''Good'', efficiency_score = 98 / 10\<rparr>)]"

definition model_pricing :: "string \<rightharpoonup> model_info" where
  "model_pricing = map_of model_pricing_table"

text \<open>
  The dictionary \<^verbatim>\<open>calculate_cost\<close> returns has one of two shapes. For an unknown model
  it holds the keys \<^verbatim>\<open>error\<close>, \<^verbatim>\<open>cost\<close>, \<^verbatim>\<open>model\<close>, \<^verbatim>\<open>duration\<close> and no
  \<^verbatim>\<open>total_cost\<close>; for a known model it holds the priced result. The two formatted
  strings of \<^verbatim>\<open>cost_breakdown\<close> are presentation only and are left out;
  \<^verbatim>\<open>base_cost\<close> is kept.
\<close>

record cost_info =
  ci_model :: string
  ci_model_name :: string
  ci_duration :: int
  ci_cost_per_second :: rat
  ci_total_cost :: rat
  ci_tier :: string
  ci_quality :: string
  ci_efficiency_score :: rat
  ci_duration_warning :: "string option"
  ci_base_cost :: rat

record cost_error =
  ce_error :: string
  ce_cost :: rat
  ce_model :: string
  ce_duration :: pval

datatype cost_result = CostError cost_error | CostInfo cost_info

text \<open>
  \<^verbatim>\<open>min(duration, max_duration)\<close> and \<^verbatim>\<open>duration > max_duration\<close> compare the
  duration with an integer: Python raises \<^verbatim>\<open>TypeError\<close> there when the duration is a
  string. The membership test on the model comes first, so an unknown model never reaches
  the comparison.
\<close>

definition calculate_cost :: "string \<Rightarrow> pval \<Rightarrow> error + cost_result" where
  "calculate_cost model duration =
     (case model_pricing model of
        None \<Rightarrow>
          Inr (CostError \<lparr>ce_error = ''Unknown model: '' @ model, ce_cost = 0,
                          ce_model = model, ce_duration = duration\<rparr>)
      | Some info \<Rightarrow>
          (case duration of
             PStr s \<Rightarrow> Inl TypeError
           | PInt d \<Rightarrow>
               (let cps = cost_per_second info;
                    max_d = max_duration info;
                    actual_duration = min d max_d;
                    duration_warning =
                      (if d > max_d
                       then Some (''Duration capped at '' @ show_nat (nat max_d)
                                    @ ''s (model limit)'')
                       else None);
                    total_cost = cps * of_int actual_duration
                in Inr (CostInfo
                     \<lparr>ci_model = model, ci_model_name = name info,
                      ci_duration = actual_duration, ci_cost_per_second = cps,
                      ci_total_cost = total_cost, ci_tier = tier info,
                      ci_quality = quality info,
                      ci_efficiency_score = efficiency_score info,
                      ci_duration_warning = duration_warning,
                      ci_base_cost = total_cost\<rparr>))))"

text \<open>\<^verbatim>\<open>cost_info.get("total_cost", 0.0)\<close>, as \<^verbatim>\<open>add_job\<close> reads the result.\<close>

definition get_total_cost :: "cost_result \<Rightarrow> rat" where
  "get_total_cost r = (case r of CostError e \<Rightarrow> 0 | CostInfo i \<Rightarrow> ci_total_cost i)"

section \<open>\<^verbatim>\<open>export_backup/core/launcher/batch_processor.py\<close>: jobs\<close>

text \<open>
  \<^verbatim>\<open>BatchJob\<close> is a dataclass. Its field \<^verbatim>\<open>id\<close> is called \<open>id_job\<close> here. The status is
  the string the source stores. Timestamps are the strings \<^verbatim>\<open>datetime.now().isoformat()\<close>
  returns; the clock is not part of the program, so every operation that reads it takes
  the timestamp as an argument.
\<close>

record batch_job =
  id_job :: string
  image_path :: string
  prompt :: string
  model :: string
  parameters :: params
  priority :: int
  status :: string
  created_at :: string
  started_at :: "string option"
  completed_at :: "string option"
  result :: "params option"
  error_message :: "string option"
  retry_count :: int
  max_retries :: int
  estimated_cost :: rat
  output_paths :: "(string \<times> string) list option"

definition post_init :: "string \<Rightarrow> batch_job \<Rightarrow> batch_job" where
  "post_init now j = (if created_at j = [] then j\<lparr>created_at := now\<rparr> else j)"

text \<open>The constructor call of \<^verbatim>\<open>add_job\<close>: the other fields take the dataclass defaults.\<close>

definition new_job ::
  "string \<Rightarrow> string \<Rightarrow> string \<Rightarrow> string \<Rightarrow> string \<Rightarrow> params \<Rightarrow> int \<Rightarrow> rat \<Rightarrow> batch_job" where
  "new_job now jid path pr mdl ps prio cost =
     post_init now
       \<lparr>id_job = jid, image_path = path, prompt = pr, model = mdl, parameters = ps,
        priority = prio, status = ''pending'', created_at = [], started_at = None,
        completed_at = None, result = None, error_message = None, retry_count = 0,
        max_retries = 2, estimated_cost = cost, output_paths = None\<rparr>"

definition start_job :: "string \<Rightarrow> batch_job \<Rightarrow> batch_job" where
  "start_job now j = j\<lparr>status := ''processing'', started_at := Some now\<rparr>"

definition complete_job ::
  "string \<Rightarrow> params \<Rightarrow> (string \<times> string) list option \<Rightarrow> batch_job \<Rightarrow> batch_job" where
  "complete_job now res paths j =
     (let j' = j\<lparr>status := ''completed'', completed_at := Some now, result := Some res\<rparr>
      in case paths of
           None \<Rightarrow> j'
         | Some [] \<Rightarrow> j'
         | Some (p # ps) \<Rightarrow> j'\<lparr>output_paths := Some (p # ps)\<rparr>)"

definition fail_job :: "string \<Rightarrow> string \<Rightarrow> batch_job \<Rightarrow> batch_job" where
  "fail_job now msg j =
     j\<lparr>status := ''failed'', completed_at := Some now, error_message := Some msg\<rparr>"

definition cancel_job :: "string \<Rightarrow> batch_job \<Rightarrow> batch_job" where
  "cancel_job now j = j\<lparr>status := ''cancelled'', completed_at := Some now\<rparr>"

definition can_retry :: "batch_job \<Rightarrow> bool" where
  "can_retry j \<longleftrightarrow> status j = ''failed'' \<and> retry_count j < max_retries j"

definition retry_job :: "batch_job \<Rightarrow> batch_job" where
  "retry_job j =
     (if can_retry j
      then j\<lparr>retry_count := retry_count j + 1, status := ''pending'', started_at := None,
             completed_at := None, error_message := None\<rparr>
      else j)"

section \<open>\<^verbatim>\<open>export_backup/core/launcher/batch_processor.py\<close>: the processor and its ledger file\<close>

text \<open>
  The dictionary \<^verbatim>\<open>self.stats\<close>. Its keys \<^verbatim>\<open>completed_jobs\<close> and \<^verbatim>\<open>failed_jobs\<close> are
  called \<open>st_completed_jobs\<close> and \<open>st_failed_jobs\<close> here, apart from the lists of the
  same names.
\<close>

record stats =
  total_jobs :: int
  st_completed_jobs :: int
  st_failed_jobs :: int
  cancelled_jobs :: int
  total_cost :: rat
  total_processing_time :: rat
  average_job_time :: rat

definition zero_stats :: stats where
  "zero_stats =
     \<lparr>total_jobs = 0, st_completed_jobs = 0, st_failed_jobs = 0, cancelled_jobs = 0,
      total_cost = 0, total_processing_time = 0, average_job_time = 0\<rparr>"

text \<open>
  \<^verbatim>\<open>active_jobs\<close> maps job ids to running tasks; the processor record keeps its keys, the
  tasks themselves are the subject of the section on batch runs.
\<close>

record processor =
  max_concurrent :: int
  save_progress :: bool
  batch_file :: string
  jobs :: "batch_job list"
  active_jobs :: "string list"
  completed_jobs :: "batch_job list"
  failed_jobs :: "batch_job list"
  stats :: stats

text \<open>
  The JSON document \<^verbatim>\<open>_save_batch_data\<close> writes: the jobs as \<^verbatim>\<open>asdict\<close> gives them,
  the statistics and a timestamp. A document read back may lack the first two keys
  (\<^verbatim>\<open>data.get("jobs", [])\<close>, \<^verbatim>\<open>data.get("stats", {})\<close>). \<^verbatim>\<open>json.dump\<close> and
  \<^verbatim>\<open>json.load\<close> belong to the Python library: a document is identified with the data it
  encodes. Every other content a file can have (an empty file, a proper prefix of a JSON
  document, an image) is \<open>Other\<close>; \<^verbatim>\<open>json.load\<close> raises on it.
\<close>

record ledger_data =
  ld_jobs :: "batch_job list option"
  ld_stats :: "stats option"
  ld_last_updated :: "string option"

datatype file_content = Json ledger_data | Other

type_synonym fs = "string \<rightharpoonup> file_content"

definition load_job :: "string \<Rightarrow> processor \<Rightarrow> batch_job \<Rightarrow> processor" where
  "load_job now p job_data =
     (let job = post_init now job_data in
      if status job = ''completed'' then p\<lparr>completed_jobs := completed_jobs p @ [job]\<rparr>
      else if status job \<in> {''failed'', ''cancelled''}
        then p\<lparr>failed_jobs := failed_jobs p @ [job]\<rparr>
      else
        (let job' = (if status job = ''processing''
                     then job\<lparr>status := ''pending'', started_at := None\<rparr> else job)
         in p\<lparr>jobs := jobs p @ [job']\<rparr>))"

text \<open>
  \<^verbatim>\<open>_load_batch_data\<close>: a missing file leaves the processor as it is; so does a file
  that \<^verbatim>\<open>json.load\<close> rejects, where the handler prints a warning.
\<close>

definition load_batch_data :: "string \<Rightarrow> fs \<Rightarrow> processor \<Rightarrow> processor" where
  "load_batch_data now files p =
     (case files (batch_file p) of
        None \<Rightarrow> p
      | Some Other \<Rightarrow> p
      | Some (Json data) \<Rightarrow>
          (let p' = foldl (load_job now) p (case ld_jobs data of None \<Rightarrow> [] | Some js \<Rightarrow> js)
           in case ld_stats data of None \<Rightarrow> p' | Some st \<Rightarrow> p'\<lparr>stats := st\<rparr>))"

text \<open>\<^verbatim>\<open>BatchProcessor.__init__\<close>.\<close>

definition init_processor :: "string \<Rightarrow> int \<Rightarrow> bool \<Rightarrow> string \<Rightarrow> fs \<Rightarrow> processor" where
  "init_processor now n sp path files =
     load_batch_data now files
       \<lparr>max_concurrent = n, save_progress = sp, batch_file = path, jobs = [],
        active_jobs = [], completed_jobs = [], failed_jobs = [], stats = zero_stats\<rparr>"

text \<open>
  \<^verbatim>\<open>_save_batch_data\<close> opens the ledger file itself in mode \<^verbatim>\<open>'w'\<close>, which truncates
  it, and dumps the document into it. The file operations are kept as a list, so that the
  state of the file system after any number of them can be looked at.
\<close>

datatype fs_op = OpenTruncate string | Dump string ledger_data | Close string

fun apply_op :: "fs \<Rightarrow> fs_op \<Rightarrow> fs" where
  "apply_op files (OpenTruncate path) = files(path \<mapsto> Other)"
| "apply_op files (Dump path data) = files(path \<mapsto> Json data)"
| "apply_op files (Close path) = files"

definition run_ops :: "fs_op list \<Rightarrow> fs \<Rightarrow> fs" where
  "run_ops ops files = foldl apply_op files ops"

definition all_jobs :: "processor \<Rightarrow> batch_job list" where
  "all_jobs p = jobs p @ completed_jobs p @ failed_jobs p"

definition ledger_of :: "string \<Rightarrow> processor \<Rightarrow> ledger_data" where
  "ledger_of now p =
     \<lparr>ld_jobs = Some (all_jobs p), ld_stats = Some (stats p), ld_last_updated = Some now\<rparr>"

definition save_ops :: "string \<Rightarrow> processor \<Rightarrow> fs_op list" where
  "save_ops now p =
     (if \<not> save_progress p then []
      else [OpenTruncate (batch_file p), Dump (batch_file p) (ledger_of now p),
            Close (batch_file p)])"

definition save_batch_data :: "string \<Rightarrow> processor \<Rightarrow> fs \<Rightarrow> fs" where
  "save_batch_data now p files = run_ops (save_ops now p) files"

section \<open>\<^verbatim>\<open>export_backup/core/launcher/batch_processor.py\<close>: queue operations\<close>

text \<open>
  \<^verbatim>\<open>str.strip\<close> removes leading and trailing whitespace; the characters below are the
  code points under 256 for which \<^verbatim>\<open>str.isspace\<close> holds.
\<close>

definition py_isspace :: "char \<Rightarrow> bool" where
  "py_isspace c \<longleftrightarrow> (of_char c :: nat) \<in> {9, 10, 11, 12, 13, 28, 29, 30, 31, 32, 133, 160}"

definition strip :: "string \<Rightarrow> string" where
  "strip s = rev (dropWhile py_isspace (rev (dropWhile py_isspace s)))"

text \<open>The format \<^verbatim>\<open>{n:03d}\<close>: decimal digits, padded with zeros to at least three.\<close>

definition pad3 :: "nat \<Rightarrow> string" where
  "pad3 n = replicate (3 - length (show_nat n)) (CHR ''0'') @ show_nat n"

text \<open>
  \<^verbatim>\<open>list.sort(key=f, reverse=True)\<close> is stable: elements with equal keys keep their
  order, the keys descend. That is an ascending stable sort between two reversals.
\<close>

definition sort_reverse :: "('a \<Rightarrow> 'k::linorder) \<Rightarrow> 'a list \<Rightarrow> 'a list" where
  "sort_reverse f xs = rev (sort_key f (rev xs))"

definition queue_key :: "batch_job \<Rightarrow> int \<times> string" where
  "queue_key x = (priority x, created_at x)"

text \<open>
  \<^verbatim>\<open>add_job\<close>. \<open>stamp\<close> is \<^verbatim>\<open>datetime.now().strftime('%Y%m%d_%H%M%S')\<close>, \<open>now\<close> the
  ISO timestamp. \<^verbatim>\<open>Path(image_path).exists()\<close> asks the file system. Each \<^verbatim>\<open>raise\<close>
  leaves the processor and the file system as they were; the result carries them so that
  this can be stated.
\<close>

definition add_job ::
  "string \<Rightarrow> string \<Rightarrow> string \<Rightarrow> string \<Rightarrow> string \<Rightarrow> params option \<Rightarrow> int
     \<Rightarrow> processor \<times> fs \<Rightarrow> (error + string) \<times> processor \<times> fs" where
  "add_job stamp now path pr mdl params_opt prio world =
     (let p = fst world; files = snd world in
      if files path = None
        then (Inl (FileNotFoundError (''Image file not found: '' @ path)), world)
      else if strip pr = [] then (Inl (ValueError ''Prompt cannot be empty''), world)
      else
        (let jid = ''job_'' @ stamp @ ''_'' @ pad3 (length (jobs p));
             ps = (case params_opt of None \<Rightarrow> [] | Some ps \<Rightarrow> ps);
             duration = (case map_of ps ''duration'' of None \<Rightarrow> PInt 5 | Some v \<Rightarrow> v)
         in case calculate_cost mdl duration of
              Inl e \<Rightarrow> (Inl e, world)
            | Inr cost_info \<Rightarrow>
                (let cost = get_total_cost cost_info;
                     job = new_job now jid path pr mdl ps prio cost;
                     p1 = p\<lparr>jobs := sort_reverse queue_key (jobs p @ [job])\<rparr>;
                     p2 = p1\<lparr>stats := (stats p1)
                            \<lparr>total_jobs := total_jobs (stats p1) + 1,
                             total_cost := total_cost (stats p1) + cost\<rparr>\<rparr>
                 in (Inr jid, p2, save_batch_data now p2 files))))"

text \<open>
  \<^verbatim>\<open>remove_job\<close> takes the first job of \<^verbatim>\<open>self.jobs\<close> with the given id, whatever its
  status. The result is the returned flag with the new processor and file system.
\<close>

fun find_index_id :: "string \<Rightarrow> batch_job list \<Rightarrow> nat option" where
  "find_index_id jid [] = None"
| "find_index_id jid (j # js) =
     (if id_job j = jid then Some 0 else map_option Suc (find_index_id jid js))"

definition remove_job :: "string \<Rightarrow> string \<Rightarrow> processor \<times> fs \<Rightarrow> bool \<times> processor \<times> fs" where
  "remove_job now jid world =
     (let p = fst world; files = snd world in
      case find_index_id jid (jobs p) of
        None \<Rightarrow> (False, world)
      | Some i \<Rightarrow>
          (let job = jobs p ! i;
               p1 = (if status job = ''processing'' \<and> jid \<in> set (active_jobs p)
                     then p\<lparr>active_jobs := removeAll jid (active_jobs p)\<rparr> else p);
               job' = cancel_job now job;
               p2 = p1\<lparr>jobs := take i (jobs p1) @ drop (Suc i) (jobs p1),
                       failed_jobs := failed_jobs p1 @ [job']\<rparr>;
               p3 = p2\<lparr>stats := (stats p2)\<lparr>cancelled_jobs := cancelled_jobs (stats p2) + 1\<rparr>\<rparr>
           in (True, p3, save_batch_data now p3 files)))"

text \<open>
  \<^verbatim>\<open>clear_queue\<close>: an absent or empty filter clears everything and resets the
  statistics; an unknown filter returns before saving.
\<close>

definition clear_queue :: "string \<Rightarrow> string option \<Rightarrow> processor \<times> fs \<Rightarrow> processor \<times> fs" where
  "clear_queue now status_filter world =
     (let p = fst world; files = snd world in
      case status_filter of
        Some (c # cs) \<Rightarrow>
          (let f = c # cs in
           if f = ''pending''
             then (let p' = p\<lparr>jobs := filter (\<lambda>j. status j \<noteq> ''pending'') (jobs p)\<rparr>
                   in (p', save_batch_data now p' files))
           else if f = ''failed''
             then (let p' = p\<lparr>failed_jobs := []\<rparr> in (p', save_batch_data now p' files))
           else if f = ''completed''
             then (let p' = p\<lparr>completed_jobs := []\<rparr> in (p', save_batch_data now p' files))
           else world)
      | _ \<Rightarrow>
          (let p' = p\<lparr>jobs := [], completed_jobs := [], failed_jobs := [],
                      stats := zero_stats\<rparr>
           in (p', save_batch_data now p' files)))"

text \<open>The jobs \<^verbatim>\<open>process_batch\<close> creates tasks for, in the order it creates them.\<close>

definition pending_jobs :: "processor \<Rightarrow> batch_job list" where
  "pending_jobs p = filter (\<lambda>job. status job = ''pending'') (jobs p)"

section \<open>\<^verbatim>\<open>export_backup/core/launcher/batch_processor.py\<close>: a batch run\<close>

text \<open>
  \<^verbatim>\<open>process_batch\<close> creates one task per pending job; each task runs the coroutine
  \<^verbatim>\<open>_process_single_job\<close>, and the tasks interleave at their \<^verbatim>\<open>await\<close> points. Between
  two such points a task runs alone, so a run is a sequence of steps, each taken by one
  task or by a call of \<^verbatim>\<open>remove_job\<close>. The points where a task can be suspended are:
  entering \<^verbatim>\<open>async with semaphore\<close> (\<open>Acquiring\<close>), the calls inside the \<^verbatim>\<open>try\<close> block
  (\<open>Generating\<close>) and \<^verbatim>\<open>asyncio.sleep(retry_delay)\<close> (\<open>Backoff\<close>). The retry is a
  recursive call made inside the \<^verbatim>\<open>async with\<close> block of the caller: the number each
  control state carries is the number of semaphore slots the enclosing calls of the task
  hold. A task whose \<^verbatim>\<open>cancel()\<close> was called is \<open>Unwinding\<close> until the event loop throws
  \<^verbatim>\<open>CancelledError\<close> into it; that exception is not an \<^verbatim>\<open>Exception\<close>, so no handler of
  the coroutine catches it, and every \<^verbatim>\<open>async with\<close> block it leaves releases its slot.
  The tasks are scheduled by the event loop on their own: \<^verbatim>\<open>process_batch\<close> only awaits
  them, and they go on when it has ended. The callbacks of the processor are \<^verbatim>\<open>None\<close>,
  as the constructor leaves them.
\<close>

datatype outcome = Success params "(string \<times> string) list option" | Failure string

datatype pc = Acquiring nat | Generating nat | Backoff nat rat | Unwinding nat | Finished

fun held :: "pc \<Rightarrow> nat" where
  "held (Acquiring d) = d"
| "held (Generating d) = d"
| "held (Backoff d delay) = d"
| "held (Unwinding d) = d"
| "held Finished = 0"

fun cancel_task :: "pc \<Rightarrow> pc" where
  "cancel_task Finished = Finished"
| "cancel_task c = Unwinding (held c)"

text \<open>
  The job objects are shared: a task, \<^verbatim>\<open>self.jobs\<close> and \<^verbatim>\<open>self.failed_jobs\<close> hold
  references to the same object, and \<^verbatim>\<open>remove_job\<close> changes an object that a task goes
  on using. So the state of a run has a store of job objects, addressed by position;
  \<open>queue\<close> is \<^verbatim>\<open>self.jobs\<close> as a list of addresses; a task refers to its job by
  \<open>job_ref\<close>. \<open>active\<close> is the dictionary \<^verbatim>\<open>self.active_jobs\<close>, from job ids to tasks:
  \<open>Some k\<close> is task \<open>k\<close> of this run, \<open>None\<close> a task that an earlier run left in the
  dictionary. \<open>attempts\<close> counts the executions of \<^verbatim>\<open>job.start()\<close> by a task.
\<close>

record task =
  job_ref :: nat
  pc :: pc
  attempts :: nat

record batch_run =
  free :: nat
  store :: "batch_job list"
  queue :: "nat list"
  active :: "string \<rightharpoonup> nat option"
  tasks :: "task list"

text \<open>
  The \<^verbatim>\<open>except Exception\<close> handler of \<^verbatim>\<open>_process_single_job\<close> up to the sleep: the job
  after it, and the delay of the backoff when the job is retried.
\<close>

definition handle_failure :: "bool \<Rightarrow> string \<Rightarrow> string \<Rightarrow> batch_job \<Rightarrow> batch_job \<times> rat option" where
  "handle_failure auto_retry now error_msg j =
     (let j1 = fail_job now error_msg j in
      if auto_retry \<and> can_retry j1
      then (let j2 = retry_job j1; retry_delay = 2 powi (retry_count j2)
            in (j2, Some retry_delay))
      else (j1, None))"

text \<open>
  The loop of \<^verbatim>\<open>process_batch\<close> that creates the tasks: the task of each pending job is
  stored in \<^verbatim>\<open>self.active_jobs\<close> under the id of the job, so that of two jobs with the
  same id the later one's task stays in the dictionary.
\<close>

fun register_tasks ::
  "batch_job list \<Rightarrow> nat list \<Rightarrow> nat \<Rightarrow> (string \<rightharpoonup> nat option) \<Rightarrow> (string \<rightharpoonup> nat option)" where
  "register_tasks js [] k m = m"
| "register_tasks js (a # as) k m = register_tasks js as (Suc k) (m(id_job (js ! a) \<mapsto> Some k))"

definition new_task :: "nat \<Rightarrow> task" where
  "new_task a = \<lparr>job_ref = a, pc = Acquiring 0, attempts = 0\<rparr>"

definition pending_refs :: "processor \<Rightarrow> nat list" where
  "pending_refs p = filter (\<lambda>a. status (jobs p ! a) = ''pending'') [0..<length (jobs p)]"

text \<open>
  The start of \<^verbatim>\<open>process_batch\<close>: it returns at once when there is no pending job
  (\<open>None\<close>); \<^verbatim>\<open>asyncio.Semaphore\<close> raises \<^verbatim>\<open>ValueError\<close> on a negative value.
\<close>

definition start_batch :: "processor \<Rightarrow> (error + batch_run) option" where
  "start_batch p =
     (if jobs p = [] then None
      else if pending_jobs p = [] then None
      else if max_concurrent p < 0
        then Some (Inl (ValueError ''Semaphore initial value must be >= 0''))
      else Some (Inr
        \<lparr>free = nat (max_concurrent p),
         store = jobs p,
         queue = [0..<length (jobs p)],
         active = register_tasks (jobs p) (pending_refs p) 0
                    (\<lambda>jid. if jid \<in> set (active_jobs p) then Some None else None),
         tasks = map new_task (pending_refs p)\<rparr>))"

text \<open>
  What one step does to the state. Task \<open>i\<close> enters \<^verbatim>\<open>async with semaphore\<close> and calls
  \<^verbatim>\<open>job.start()\<close>:
\<close>

definition acquire_slot :: "string \<Rightarrow> nat \<Rightarrow> batch_run \<Rightarrow> batch_run" where
  "acquire_slot now i s =
     (let t = tasks s ! i; a = job_ref t in
      s\<lparr>free := free s - 1,
        store := (store s)[a := start_job now (store s ! a)],
        tasks := (tasks s)[i := t\<lparr>pc := Generating (Suc (held (pc t))),
                                  attempts := Suc (attempts t)\<rparr>]\<rparr>)"

text \<open>The \<^verbatim>\<open>try\<close> block of task \<open>i\<close> runs to its end; the calls of the task return.\<close>

definition complete_task ::
  "string \<Rightarrow> params \<Rightarrow> (string \<times> string) list option \<Rightarrow> nat \<Rightarrow> batch_run \<Rightarrow> batch_run" where
  "complete_task now res paths i s =
     (let t = tasks s ! i; a = job_ref t in
      s\<lparr>free := free s + held (pc t),
        store := (store s)[a := complete_job now res paths (store s ! a)],
        tasks := (tasks s)[i := t\<lparr>pc := Finished\<rparr>]\<rparr>)"

text \<open>
  The \<^verbatim>\<open>try\<close> block of task \<open>i\<close> raises: the handler fails the job and either retries
  it and sleeps, keeping the slots, or returns.
\<close>

definition fail_task :: "bool \<Rightarrow> string \<Rightarrow> string \<Rightarrow> nat \<Rightarrow> batch_run \<Rightarrow> batch_run" where
  "fail_task auto_retry now msg i s =
     (let t = tasks s ! i; a = job_ref t;
          r = handle_failure auto_retry now msg (store s ! a)
      in case snd r of
           Some delay \<Rightarrow>
             s\<lparr>store := (store s)[a := fst r],
               tasks := (tasks s)[i := t\<lparr>pc := Backoff (held (pc t)) delay\<rparr>]\<rparr>
         | None \<Rightarrow>
             s\<lparr>free := free s + held (pc t),
               store := (store s)[a := fst r],
               tasks := (tasks s)[i := t\<lparr>pc := Finished\<rparr>]\<rparr>)"

text \<open>The sleep of task \<open>i\<close> ends, and the task makes the recursive call.\<close>

definition wake_task :: "nat \<Rightarrow> batch_run \<Rightarrow> batch_run" where
  "wake_task i s =
     (let t = tasks s ! i in s\<lparr>tasks := (tasks s)[i := t\<lparr>pc := Acquiring (held (pc t))\<rparr>]\<rparr>)"

text \<open>\<^verbatim>\<open>CancelledError\<close> is thrown into task \<open>i\<close>, which leaves its blocks.\<close>

definition unwind_task :: "nat \<Rightarrow> batch_run \<Rightarrow> batch_run" where
  "unwind_task i s =
     (let t = tasks s ! i in
      s\<lparr>free := free s + held (pc t), tasks := (tasks s)[i := t\<lparr>pc := Finished\<rparr>]\<rparr>)"

text \<open>
  \<^verbatim>\<open>task.cancel()\<close> on an entry of \<^verbatim>\<open>self.active_jobs\<close>, and \<^verbatim>\<open>remove_job\<close> called
  while the batch runs: it takes the first job of \<^verbatim>\<open>self.jobs\<close> with the id; if that
  job is \<^verbatim>\<open>processing\<close> and the id is in \<^verbatim>\<open>self.active_jobs\<close>, it cancels the task
  stored there and deletes the entry; it cancels the job and takes it out of
  \<^verbatim>\<open>self.jobs\<close>. (The statistics and the ledger file, which it also writes, are not part
  of the state of a run.)
\<close>

definition cancel_entry :: "nat option \<Rightarrow> batch_run \<Rightarrow> batch_run" where
  "cancel_entry r s =
     (case r of
        None \<Rightarrow> s
      | Some k \<Rightarrow>
          (if k < length (tasks s)
           then s\<lparr>tasks := (tasks s)[k := (tasks s ! k)\<lparr>pc := cancel_task (pc (tasks s ! k))\<rparr>]\<rparr>
           else s))"

definition remove_running :: "string \<Rightarrow> string \<Rightarrow> batch_run \<Rightarrow> batch_run" where
  "remove_running now jid s =
     (case find_index_id jid (map (\<lambda>a. store s ! a) (queue s)) of
        None \<Rightarrow> s
      | Some q \<Rightarrow>
          (let a = queue s ! q;
               j = store s ! a;
               s1 = (if status j = ''processing''
                     then (case active s jid of
                             None \<Rightarrow> s
                           | Some r \<Rightarrow> (cancel_entry r s)\<lparr>active := (active s)(jid := None)\<rparr>)
                     else s)
           in s1\<lparr>store := (store s1)[a := cancel_job now j],
                 queue := take q (queue s1) @ drop (Suc q) (queue s1)\<rparr>))"

text \<open>
  One step of a run. \<open>gen i k\<close> is what the \<^verbatim>\<open>try\<close> block of the \<open>k\<close>-th execution of
  task \<open>i\<close> does: it runs to its end with a result, or raises an exception with a
  message. \<^verbatim>\<open>remove_job\<close> can be called at any time, with any id.
\<close>

inductive step :: "bool \<Rightarrow> (nat \<Rightarrow> nat \<Rightarrow> outcome) \<Rightarrow> batch_run \<Rightarrow> batch_run \<Rightarrow> bool"
  for auto_retry :: bool and gen :: "nat \<Rightarrow> nat \<Rightarrow> outcome" where
  acquire:
    "\<lbrakk>i < length (tasks s); pc (tasks s ! i) = Acquiring d; 0 < free s\<rbrakk>
     \<Longrightarrow> step auto_retry gen s (acquire_slot now i s)"
| succeed:
    "\<lbrakk>i < length (tasks s); pc (tasks s ! i) = Generating d;
      gen i (attempts (tasks s ! i)) = Success res paths\<rbrakk>
     \<Longrightarrow> step auto_retry gen s (complete_task now res paths i s)"
| failure:
    "\<lbrakk>i < length (tasks s); pc (tasks s ! i) = Generating d;
      gen i (attempts (tasks s ! i)) = Failure msg\<rbrakk>
     \<Longrightarrow> step auto_retry gen s (fail_task auto_retry now msg i s)"
| wake:
    "\<lbrakk>i < length (tasks s); pc (tasks s ! i) = Backoff d delay\<rbrakk>
     \<Longrightarrow> step auto_retry gen s (wake_task i s)"
| unwind:
    "\<lbrakk>i < length (tasks s); pc (tasks s ! i) = Unwinding d\<rbrakk>
     \<Longrightarrow> step auto_retry gen s (unwind_task i s)"
| remove:
    "step auto_retry gen s (remove_running now jid s)"

definition processing_count :: "batch_run \<Rightarrow> nat" where
  "processing_count s = length (filter (\<lambda>j. status j = ''processing'') (store s))"

text \<open>A generator whose every call raises, and one whose every call returns.\<close>

definition failing :: "string \<Rightarrow> nat \<Rightarrow> nat \<Rightarrow> outcome" where
  "failing msg i k = Failure msg"

definition succeeding :: "params \<Rightarrow> nat \<Rightarrow> nat \<Rightarrow> outcome" where
  "succeeding res i k = Success res None"

section \<open>Properties of the cost calculator\<close>

text \<open>
  Claim C10. For every model of the pricing table and every requested duration,
  \<^verbatim>\<open>calculate_cost\<close> returns a priced result whose total cost is the model's cost per
  second times the duration capped at the model's maximum, whose duration is that capped
  duration, and whose duration warning is set exactly when the request exceeds the maximum.
  For a model that is not in the table it raises nothing and returns the error-flagged
  result with cost zero.
\<close>

theorem calculate_cost_spec:
  "(\<forall>info. model_pricing m = Some info \<longrightarrow>
      (\<exists>r. calculate_cost m (PInt d) = Inr (CostInfo r)
         \<and> ci_total_cost r = cost_per_second info * of_int (min d (max_duration info))
         \<and> ci_duration r = min d (max_duration info)
         \<and> ci_cost_per_second r = cost_per_second info
         \<and> (ci_duration_warning r \<noteq> None \<longleftrightarrow> d > max_duration info)))
   \<and> (model_pricing m = None \<longrightarrow>
      (\<exists>e. calculate_cost m dur = Inr (CostError e)
         \<and> ce_cost e = 0 \<and> ce_model e = m \<and> ce_duration e = dur
         \<and> ce_error e = ''Unknown model: '' @ m
         \<and> get_total_cost (CostError e) = 0))"
  by (simp add: calculate_cost_def get_total_cost_def Let_def)

theorem calculate_cost_spec_witness:
  "(\<exists>r. calculate_cost ''luma_dream'' (PInt 12) = Inr (CostInfo r)
      \<and> ci_total_cost r = 9 / 10 \<and> ci_duration r = 9
      \<and> ci_duration_warning r = Some ''Duration capped at 9s (model limit)'')
   \<and> (\<exists>e. calculate_cost ''sora'' (PInt 12) = Inr (CostError e) \<and> ce_cost e = 0)"
proof -
  have known: "model_pricing ''luma_dream'' =
      Some \<lparr>name = ''Luma Dream Machine'', cost_5s = 50 / 100, cost_10s = 90 / 100,
         cost_per_second = 10 / 100, max_duration = 9, tier = ''Alternative'',
         quality = ''High'', efficiency_score = 80 / 10\<rparr>"
    by (simp add: model_pricing_def model_pricing_table_def)
  have unknown: "model_pricing ''sora'' = None"
    by (simp add: model_pricing_def model_pricing_table_def)
  have w: "show_nat 9 = ''9''"
    by (simp add: show_nat.simps)
  from calculate_cost_spec [of "''luma_dream''" 12 "PInt 12"]
    calculate_cost_spec [of "''sora''" 12 "PInt 12"] known unknown
  show ?thesis
    by (auto simp: calculate_cost_def Let_def w)
qed

section \<open>Loading and saving the ledger\<close>

lemma status_post_init [simp]: "status (post_init now j) = status j"
  by (simp add: post_init_def)

lemma post_init_idem: "created_at j \<noteq> [] \<Longrightarrow> post_init now j = j"
  by (simp add: post_init_def)

lemma load_job_fields [simp]:
  "batch_file (load_job now p j) = batch_file p"
  "max_concurrent (load_job now p j) = max_concurrent p"
  "save_progress (load_job now p j) = save_progress p"
  "active_jobs (load_job now p j) = active_jobs p"
  "stats (load_job now p j) = stats p"
  by (simp_all add: load_job_def Let_def)

lemma foldl_load_job_jobs:
  "jobs (foldl (load_job now) p js) =
     jobs p @ map (\<lambda>j. if status j = ''processing''
                        then j\<lparr>status := ''pending'', started_at := None\<rparr> else j)
       (filter (\<lambda>j. status j \<noteq> ''completed'' \<and> status j \<noteq> ''failed'' \<and> status j \<noteq> ''cancelled'')
          (map (post_init now) js))"
  by (induction js arbitrary: p) (simp_all add: load_job_def Let_def)

lemma foldl_load_job_completed:
  "completed_jobs (foldl (load_job now) p js) =
     completed_jobs p @ filter (\<lambda>j. status j = ''completed'') (map (post_init now) js)"
  by (induction js arbitrary: p) (simp_all add: load_job_def Let_def)

lemma foldl_load_job_failed:
  "failed_jobs (foldl (load_job now) p js) =
     failed_jobs p @ filter (\<lambda>j. status j = ''failed'' \<or> status j = ''cancelled'')
        (map (post_init now) js)"
  by (induction js arbitrary: p) (simp_all add: load_job_def Let_def)

lemma foldl_load_job_other [simp]:
  "batch_file (foldl (load_job now) p js) = batch_file p"
  "stats (foldl (load_job now) p js) = stats p"
  by (induction js arbitrary: p) simp_all

text \<open>
  Claim C5. When the ledger file holds a job in status \<^verbatim>\<open>processing\<close>, loading puts that
  job, with its status reset to \<^verbatim>\<open>pending\<close> and \<^verbatim>\<open>started_at\<close> cleared, among the
  pending jobs of the queue \<^verbatim>\<open>self.jobs\<close>. A job in any other status is loaded as it was
  saved, status included. (\<open>post_init\<close> is the dataclass constructor; it changes nothing
  on a job that has a creation time.)
\<close>

theorem load_resets_processing:
  assumes "files (batch_file p) = Some (Json data)" and "ld_jobs data = Some js"
    and "j \<in> set js"
  shows "(status j = ''processing'' \<longrightarrow>
            (post_init now j)\<lparr>status := ''pending'', started_at := None\<rparr>
              \<in> set (pending_jobs (load_batch_data now files p)))
       \<and> (status j \<noteq> ''processing'' \<longrightarrow>
            post_init now j \<in> set (all_jobs (load_batch_data now files p)))"
proof -
  let ?p' = "foldl (load_job now) p js"
  have eq: "jobs (load_batch_data now files p) = jobs ?p'"
    "completed_jobs (load_batch_data now files p) = completed_jobs ?p'"
    "failed_jobs (load_batch_data now files p) = failed_jobs ?p'"
    using assms(1,2) by (simp_all add: load_batch_data_def Let_def split: option.splits)
  have in_js: "post_init now j \<in> set (map (post_init now) js)"
    using assms(3) by simp
  have mem: "f x \<in> set (ys @ map f (filter P xs))" if "x \<in> set xs" "P x"
    for f :: "batch_job \<Rightarrow> batch_job" and x xs ys P
    using that by simp
  show ?thesis
  proof (intro conjI impI)
    assume st: "status j = ''processing''"
    have "(post_init now j)\<lparr>status := ''pending'', started_at := None\<rparr> \<in> set (jobs ?p')"
      unfolding foldl_load_job_jobs
      using mem [OF in_js, of "\<lambda>j. status j \<noteq> ''completed'' \<and> status j \<noteq> ''failed''
          \<and> status j \<noteq> ''cancelled''"
          "\<lambda>j. if status j = ''processing''
                        then j\<lparr>status := ''pending'', started_at := None\<rparr> else j" "jobs p"] st
      by simp
    then show "(post_init now j)\<lparr>status := ''pending'', started_at := None\<rparr>
        \<in> set (pending_jobs (load_batch_data now files p))"
      by (simp add: pending_jobs_def eq)
  next
    assume st: "status j \<noteq> ''processing''"
    consider "status j = ''completed''" | "status j = ''failed'' \<or> status j = ''cancelled''"
      | "status j \<noteq> ''completed'' \<and> status j \<noteq> ''failed'' \<and> status j \<noteq> ''cancelled''"
      by blast
    then show "post_init now j \<in> set (all_jobs (load_batch_data now files p))"
    proof cases
      case 1
      with in_js have "post_init now j \<in> set (completed_jobs ?p')"
        unfolding foldl_load_job_completed by simp
      then show ?thesis by (simp add: all_jobs_def eq)
    next
      case 2
      with in_js have "post_init now j \<in> set (failed_jobs ?p')"
        unfolding foldl_load_job_failed by simp
      then show ?thesis by (simp add: all_jobs_def eq)
    next
      case 3
      have "post_init now j \<in> set (jobs ?p')"
        unfolding foldl_load_job_jobs
        using mem [OF in_js, of "\<lambda>j. status j \<noteq> ''completed'' \<and> status j \<noteq> ''failed''
          \<and> status j \<noteq> ''cancelled''"
          "\<lambda>j. if status j = ''processing''
                        then j\<lparr>status := ''pending'', started_at := None\<rparr> else j" "jobs p"] st 3
        by simp
      then show ?thesis by (simp add: all_jobs_def eq)
    qed
  qed
qed

lemma mset_three_filters:
  "mset (filter (\<lambda>j. status j \<noteq> ''completed'' \<and> status j \<noteq> ''failed'' \<and> status j \<noteq> ''cancelled'') xs
         @ filter (\<lambda>j. status j = ''completed'') xs
         @ filter (\<lambda>j. status j = ''failed'' \<or> status j = ''cancelled'') xs) = mset xs"
  by (induction xs) auto

lemma map_post_init_id: "\<forall>j\<in>set js. created_at j \<noteq> [] \<Longrightarrow> map (post_init now) js = js"
  by (induction js) (simp_all add: post_init_def)

lemma saved_ledger:
  "save_progress p \<Longrightarrow>
     save_batch_data now p files (batch_file p) = Some (Json (ledger_of now p))"
  by (simp add: save_batch_data_def save_ops_def run_ops_def)

text \<open>
  Claim C9, as amended. Saving a ledger and loading it into a new processor does not give
  the same ledger when a job is \<^verbatim>\<open>processing\<close>: that job comes back \<^verbatim>\<open>pending\<close> with
  \<^verbatim>\<open>started_at\<close> cleared. What holds, for a processor that saves its progress and whose
  jobs were built by the constructor: the loaded processor holds the saved jobs, regrouped
  by status in their saved order, each with all its fields, except that reset; the
  statistics are the saved ones; and when no job is \<^verbatim>\<open>processing\<close> the loaded jobs are
  exactly the saved jobs.
\<close>

theorem save_load_round_trip:
  assumes sp: "save_progress p"
    and built: "\<forall>j\<in>set (all_jobs p). created_at j \<noteq> []"
    and p'_def: "p' = init_processor now' n sp' (batch_file p) (save_batch_data now p files)"
  shows "jobs p' =
           map (\<lambda>j. if status j = ''processing''
                      then j\<lparr>status := ''pending'', started_at := None\<rparr> else j)
             (filter (\<lambda>j. status j \<noteq> ''completed'' \<and> status j \<noteq> ''failed''
                          \<and> status j \<noteq> ''cancelled'') (all_jobs p))
       \<and> completed_jobs p' = filter (\<lambda>j. status j = ''completed'') (all_jobs p)
       \<and> failed_jobs p' =
           filter (\<lambda>j. status j = ''failed'' \<or> status j = ''cancelled'') (all_jobs p)
       \<and> stats p' = stats p
       \<and> ((\<forall>j\<in>set (all_jobs p). status j \<noteq> ''processing'') \<longrightarrow>
           mset (all_jobs p') = mset (all_jobs p))"
proof -
  let ?p0 = "\<lparr>max_concurrent = n, save_progress = sp', batch_file = batch_file p, jobs = [],
        active_jobs = [], completed_jobs = [], failed_jobs = [], stats = zero_stats\<rparr>"
  let ?q = "foldl (load_job now') ?p0 (all_jobs p)"
  have p': "p' = ?q\<lparr>stats := stats p\<rparr>"
    unfolding p'_def init_processor_def load_batch_data_def
    by (simp add: saved_ledger [OF sp] ledger_of_def)
  have pi: "map (post_init now') (all_jobs p) = all_jobs p"
    using built by (rule map_post_init_id)
  have j: "jobs p' =
           map (\<lambda>j. if status j = ''processing''
                      then j\<lparr>status := ''pending'', started_at := None\<rparr> else j)
             (filter (\<lambda>j. status j \<noteq> ''completed'' \<and> status j \<noteq> ''failed''
                          \<and> status j \<noteq> ''cancelled'') (all_jobs p))"
    by (simp add: p' foldl_load_job_jobs pi)
  have c: "completed_jobs p' = filter (\<lambda>j. status j = ''completed'') (all_jobs p)"
    by (simp add: p' foldl_load_job_completed pi)
  have f: "failed_jobs p' =
           filter (\<lambda>j. status j = ''failed'' \<or> status j = ''cancelled'') (all_jobs p)"
    by (simp add: p' foldl_load_job_failed pi)
  have st: "stats p' = stats p"
    by (simp add: p')
  have m: "(\<forall>j\<in>set (all_jobs p). status j \<noteq> ''processing'') \<longrightarrow>
           mset (all_jobs p') = mset (all_jobs p)"
  proof
    assume np: "\<forall>j\<in>set (all_jobs p). status j \<noteq> ''processing''"
    have "map (\<lambda>j. if status j = ''processing''
                      then j\<lparr>status := ''pending'', started_at := None\<rparr> else j)
             (filter (\<lambda>j. status j \<noteq> ''completed'' \<and> status j \<noteq> ''failed''
                          \<and> status j \<noteq> ''cancelled'') (all_jobs p))
        = filter (\<lambda>j. status j \<noteq> ''completed'' \<and> status j \<noteq> ''failed''
                          \<and> status j \<noteq> ''cancelled'') (all_jobs p)"
      using np by (intro map_idI) simp
    then have "all_jobs p' =
        filter (\<lambda>j. status j \<noteq> ''completed'' \<and> status j \<noteq> ''failed''
                          \<and> status j \<noteq> ''cancelled'') (all_jobs p)
         @ filter (\<lambda>j. status j = ''completed'') (all_jobs p)
         @ filter (\<lambda>j. status j = ''failed'' \<or> status j = ''cancelled'') (all_jobs p)"
      unfolding all_jobs_def [of p'] j c f by simp
    then show "mset (all_jobs p') = mset (all_jobs p)"
      using mset_three_filters [of "all_jobs p"] by simp
  qed
  from j c f st m show ?thesis by blast
qed

theorem load_resets_processing_witness:
  "new_job ''t0'' ''job_1'' ''a.png'' ''go'' ''haiper_20'' [] 1 (1 / 5)
     \<in> set (pending_jobs (init_processor ''t2'' 3 True ''ledger''
         [''ledger'' \<mapsto> Json \<lparr>ld_jobs = Some
             [start_job ''t1'' (new_job ''t0'' ''job_1'' ''a.png'' ''go'' ''haiper_20'' [] 1 (1 / 5))],
            ld_stats = None, ld_last_updated = None\<rparr>]))"
proof -
  let ?j = "start_job ''t1'' (new_job ''t0'' ''job_1'' ''a.png'' ''go'' ''haiper_20'' [] 1 (1 / 5))"
  let ?d = "\<lparr>ld_jobs = Some [?j], ld_stats = None, ld_last_updated = None\<rparr>"
  let ?p = "\<lparr>max_concurrent = 3, save_progress = True, batch_file = ''ledger'', jobs = [],
        active_jobs = [], completed_jobs = [], failed_jobs = [], stats = zero_stats\<rparr>"
  have "[''ledger'' \<mapsto> Json ?d] (batch_file ?p) = Some (Json ?d)" by simp
  moreover have "ld_jobs ?d = Some [?j]" by simp
  moreover have "?j \<in> set [?j]" by simp
  ultimately have "(status ?j = ''processing'' \<longrightarrow>
            (post_init ''t2'' ?j)\<lparr>status := ''pending'', started_at := None\<rparr>
              \<in> set (pending_jobs (load_batch_data ''t2'' [''ledger'' \<mapsto> Json ?d] ?p)))"
    using load_resets_processing [of "[''ledger'' \<mapsto> Json ?d]" ?p ?d "[?j]" ?j "''t2''"]
    by blast
  then show ?thesis
    by (simp add: init_processor_def start_job_def new_job_def post_init_def)
qed

text \<open>
  The round trip as the claim states it fails on a ledger with one job that is being
  processed.
\<close>

theorem save_load_round_trip_counterexample:
  "map status (all_jobs
      \<lparr>max_concurrent = 3, save_progress = True, batch_file = ''ledger'',
       jobs = [start_job ''t1'' (new_job ''t0'' ''job_1'' ''a.png'' ''go'' ''haiper_20'' [] 1 (1 / 5))],
       active_jobs = [''job_1''], completed_jobs = [], failed_jobs = [], stats = zero_stats\<rparr>)
     = [''processing'']
   \<and> map status (all_jobs (init_processor ''t3'' 3 True ''ledger''
        (save_batch_data ''t2''
          \<lparr>max_concurrent = 3, save_progress = True, batch_file = ''ledger'',
           jobs = [start_job ''t1'' (new_job ''t0'' ''job_1'' ''a.png'' ''go'' ''haiper_20'' [] 1 (1 / 5))],
           active_jobs = [''job_1''], completed_jobs = [], failed_jobs = [],
           stats = zero_stats\<rparr> Map.empty)))
     = [''pending'']"
  by (simp add: all_jobs_def init_processor_def load_batch_data_def save_batch_data_def
      save_ops_def run_ops_def ledger_of_def load_job_def start_job_def new_job_def post_init_def)

theorem save_load_round_trip_witness:
  "all_jobs (init_processor ''t3'' 3 True ''ledger''
        (save_batch_data ''t2''
          \<lparr>max_concurrent = 3, save_progress = True, batch_file = ''ledger'',
           jobs = [new_job ''t0'' ''job_1'' ''a.png'' ''go'' ''haiper_20'' [] 1 (1 / 5)],
           active_jobs = [], completed_jobs = [], failed_jobs = [],
           stats = zero_stats\<lparr>total_jobs := 1\<rparr>\<rparr> Map.empty))
     = [new_job ''t0'' ''job_1'' ''a.png'' ''go'' ''haiper_20'' [] 1 (1 / 5)]
   \<and> stats (init_processor ''t3'' 3 True ''ledger''
        (save_batch_data ''t2''
          \<lparr>max_concurrent = 3, save_progress = True, batch_file = ''ledger'',
           jobs = [new_job ''t0'' ''job_1'' ''a.png'' ''go'' ''haiper_20'' [] 1 (1 / 5)],
           active_jobs = [], completed_jobs = [], failed_jobs = [],
           stats = zero_stats\<lparr>total_jobs := 1\<rparr>\<rparr> Map.empty))
     = zero_stats\<lparr>total_jobs := 1\<rparr>"
proof -
  let ?j = "new_job ''t0'' ''job_1'' ''a.png'' ''go'' ''haiper_20'' [] 1 (1 / 5)"
  let ?p = "\<lparr>max_concurrent = 3, save_progress = True, batch_file = ''ledger'',
           jobs = [?j], active_jobs = [], completed_jobs = [], failed_jobs = [],
           stats = zero_stats\<lparr>total_jobs := 1\<rparr>\<rparr>"
  let ?p' = "init_processor ''t3'' 3 True (batch_file ?p) (save_batch_data ''t2'' ?p Map.empty)"
  have sp: "save_progress ?p" by simp
  have built: "\<forall>j\<in>set (all_jobs ?p). created_at j \<noteq> []"
    by (simp add: all_jobs_def new_job_def post_init_def)
  have st: "status ?j = ''pending''"
    by (simp add: new_job_def post_init_def)
  from save_load_round_trip [OF sp built refl, of "''t3''" 3 True "''t2''" Map.empty]
  have "jobs ?p' = [?j]" "completed_jobs ?p' = []" "failed_jobs ?p' = []" "stats ?p' = stats ?p"
    by (simp_all add: all_jobs_def st)
  then show ?thesis
    by (simp add: all_jobs_def)
qed

subsection \<open>Interrupted saves\<close>

lemma take_save_ops:
  "take k (save_ops now p) =
     (if \<not> save_progress p \<or> k = 0 then []
      else if k = 1 then [OpenTruncate (batch_file p)]
      else if k = 2 then [OpenTruncate (batch_file p), Dump (batch_file p) (ledger_of now p)]
      else save_ops now p)"
proof -
  consider "k = 0" | "k = 1" | "k = 2" | "k \<ge> 3" by linarith
  then show ?thesis
  proof cases
    case 4
    then obtain m where "k = Suc (Suc (Suc m))"
      by (metis Suc_le_D numeral_3_eq_3 Suc_le_mono)
    then show ?thesis by (simp add: save_ops_def)
  qed (simp_all add: save_ops_def numeral_2_eq_2)
qed

lemma run_take_save_ops:
  "run_ops (take k (save_ops now p)) files =
     (if \<not> save_progress p \<or> k = 0 then files
      else if k = 1 then files(batch_file p \<mapsto> Other)
      else files(batch_file p \<mapsto> Json (ledger_of now p)))"
  unfolding take_save_ops by (simp add: run_ops_def save_ops_def)

text \<open>
  Claim C6, as amended. \<^verbatim>\<open>_save_batch_data\<close> uses no temporary file and no rename: after
  any number \<open>k\<close> of its file operations every path other than the ledger file is
  untouched, and the ledger file holds its old content, or unreadable content, or the new
  document. When progress is saved, an interruption after the first operation leaves the
  ledger file truncated; a later load of that file keeps the processor it started from, so
  the old ledger is lost.
\<close>

theorem save_not_atomic:
  "(\<forall>path. path \<noteq> batch_file p \<longrightarrow>
        run_ops (take k (save_ops now p)) files path = files path)
   \<and> (run_ops (take k (save_ops now p)) files (batch_file p) = files (batch_file p)
        \<or> run_ops (take k (save_ops now p)) files (batch_file p) = Some Other
        \<or> run_ops (take k (save_ops now p)) files (batch_file p)
             = Some (Json (ledger_of now p)))
   \<and> (save_progress p \<longrightarrow>
        run_ops (take 1 (save_ops now p)) files (batch_file p) = Some Other
        \<and> load_batch_data now' (run_ops (take 1 (save_ops now p)) files)
              (q\<lparr>batch_file := batch_file p\<rparr>) = q\<lparr>batch_file := batch_file p\<rparr>)"
  by (simp add: run_take_save_ops load_batch_data_def)

text \<open>
  A save interrupted after the file was opened: the ledger file holds neither the old
  ledger nor the new one, and the load that follows finds no job.
\<close>

theorem save_not_atomic_counterexample:
  "[''ledger'' \<mapsto> Json \<lparr>ld_jobs = Some [new_job ''t0'' ''job_1'' ''a.png'' ''go'' ''haiper_20'' [] 1 (1 / 5)],
        ld_stats = Some zero_stats, ld_last_updated = Some ''t0''\<rparr>] ''ledger''
     \<noteq> Some Other
   \<and> save_batch_data ''t1''
        \<lparr>max_concurrent = 3, save_progress = True, batch_file = ''ledger'',
         jobs = [new_job ''t0'' ''job_1'' ''a.png'' ''go'' ''haiper_20'' [] 1 (1 / 5)],
         active_jobs = [], completed_jobs = [], failed_jobs = [], stats = zero_stats\<rparr>
        [''ledger'' \<mapsto> Json \<lparr>ld_jobs = Some [new_job ''t0'' ''job_1'' ''a.png'' ''go'' ''haiper_20'' [] 1 (1 / 5)],
          ld_stats = Some zero_stats, ld_last_updated = Some ''t0''\<rparr>] ''ledger''
     \<noteq> Some Other
   \<and> run_ops (take 1 (save_ops ''t1''
        \<lparr>max_concurrent = 3, save_progress = True, batch_file = ''ledger'',
         jobs = [new_job ''t0'' ''job_1'' ''a.png'' ''go'' ''haiper_20'' [] 1 (1 / 5)],
         active_jobs = [], completed_jobs = [], failed_jobs = [], stats = zero_stats\<rparr>))
        [''ledger'' \<mapsto> Json \<lparr>ld_jobs = Some [new_job ''t0'' ''job_1'' ''a.png'' ''go'' ''haiper_20'' [] 1 (1 / 5)],
          ld_stats = Some zero_stats, ld_last_updated = Some ''t0''\<rparr>] ''ledger''
     = Some Other
   \<and> jobs (init_processor ''t2'' 3 True ''ledger''
        (run_ops (take 1 (save_ops ''t1''
          \<lparr>max_concurrent = 3, save_progress = True, batch_file = ''ledger'',
           jobs = [new_job ''t0'' ''job_1'' ''a.png'' ''go'' ''haiper_20'' [] 1 (1 / 5)],
           active_jobs = [], completed_jobs = [], failed_jobs = [], stats = zero_stats\<rparr>))
          [''ledger'' \<mapsto> Json \<lparr>ld_jobs = Some [new_job ''t0'' ''job_1'' ''a.png'' ''go'' ''haiper_20'' [] 1 (1 / 5)],
            ld_stats = Some zero_stats, ld_last_updated = Some ''t0''\<rparr>])) = []"
  by (simp add: save_batch_data_def save_ops_def run_ops_def init_processor_def
      load_batch_data_def)

theorem save_not_atomic_witness:
  "run_ops (take 1 (save_ops ''t1''
        \<lparr>max_concurrent = 3, save_progress = True, batch_file = ''ledger'',
         jobs = [], active_jobs = [], completed_jobs = [], failed_jobs = [],
         stats = zero_stats\<rparr>)) [''a.png'' \<mapsto> Other] ''ledger'' = Some Other
   \<and> run_ops (take 1 (save_ops ''t1''
        \<lparr>max_concurrent = 3, save_progress = True, batch_file = ''ledger'',
         jobs = [], active_jobs = [], completed_jobs = [], failed_jobs = [],
         stats = zero_stats\<rparr>)) [''a.png'' \<mapsto> Other] ''a.png'' = Some Other"
  using save_not_atomic [of
        "\<lparr>max_concurrent = 3, save_progress = True, batch_file = ''ledger'',
         jobs = [], active_jobs = [], completed_jobs = [], failed_jobs = [],
         stats = zero_stats\<rparr>" 1 "''t1''" "[''a.png'' \<mapsto> Other]"]
  by simp


section \<open>Adding jobs to the queue\<close>


lemma set_sort_reverse [simp]: "set (sort_reverse f xs) = set xs"
  by (simp add: sort_reverse_def)

lemma length_sort_reverse [simp]: "length (sort_reverse f xs) = length xs"
  by (simp add: sort_reverse_def)

lemma calculate_cost_int: "\<exists>c. calculate_cost mdl (PInt d) = Inr c"
  by (simp add: calculate_cost_def Let_def split: option.splits)

lemma status_new_job [simp]: "status (new_job now jid path pr mdl ps prio cost) = ''pending''"
  and id_new_job [simp]: "id_job (new_job now jid path pr mdl ps prio cost) = jid"
  and cost_new_job [simp]: "estimated_cost (new_job now jid path pr mdl ps prio cost) = cost"
  by (simp_all add: new_job_def post_init_def)




lemma add_job_accepts:
  assumes "snd world path \<noteq> None" and "strip pr \<noteq> []"
    and "calculate_cost mdl
           (case map_of (case params_opt of None \<Rightarrow> [] | Some ps \<Rightarrow> ps) ''duration'' of
              None \<Rightarrow> PInt 5 | Some v \<Rightarrow> v) = Inr c"
  shows "add_job stamp now path pr mdl params_opt prio world =
    (let p = fst world;
         jid = ''job_'' @ stamp @ ''_'' @ pad3 (length (jobs p));
         ps = (case params_opt of None \<Rightarrow> [] | Some ps \<Rightarrow> ps);
         job = new_job now jid path pr mdl ps prio (get_total_cost c);
         p2 = p\<lparr>jobs := sort_reverse queue_key (jobs p @ [job]),
                 stats := (stats p)\<lparr>total_jobs := total_jobs (stats p) + 1,
                            total_cost := total_cost (stats p) + get_total_cost c\<rparr>\<rparr>
     in (Inr jid, p2, save_batch_data now p2 (snd world)))"
  using assms by (simp add: add_job_def Let_def)






section \<open>The order of the queue\<close>

lemma sorted_wrt_sort_reverse:
  "sorted_wrt (\<lambda>a b. f b \<le> f a) (sort_reverse f xs)"
proof -
  have "sorted (map f (sort_key f (rev xs)))"
    by (rule sorted_sort_key)
  then have "sorted_wrt (\<lambda>a b. f a \<le> f b) (sort_key f (rev xs))"
    by (simp add: sorted_map)
  then show ?thesis
    by (simp add: sort_reverse_def sorted_wrt_rev)
qed

lemma queue_key_le:
  "queue_key b \<le> queue_key a \<longleftrightarrow>
     priority b < priority a \<or> (priority b = priority a \<and> created_at b \<le> created_at a)"
  by (auto simp: queue_key_def less_eq_prod_def)

text \<open>
  What \<^verbatim>\<open>add_job\<close> does to the order: the queue, and with it the list of pending jobs in
  the order in which \<^verbatim>\<open>process_batch\<close> creates their tasks, is sorted by the key
  \<open>(priority, created_at)\<close> in descending order. A job with a higher priority comes
  first, and of two jobs with the same priority the one with the later creation time comes
  first.
\<close>

lemma add_job_queue_order:
  assumes "add_job stamp now path pr mdl params_opt prio world = (Inr jid, p', files')"
  shows "sorted_wrt (\<lambda>a b. priority b < priority a
              \<or> (priority b = priority a \<and> created_at b \<le> created_at a)) (jobs p')
       \<and> sorted_wrt (\<lambda>a b. priority b < priority a
              \<or> (priority b = priority a \<and> created_at b \<le> created_at a)) (pending_jobs p')"
proof -
  have "\<exists>job. jobs p' = sort_reverse queue_key (jobs (fst world) @ [job])"
    using assms by (auto simp: add_job_def Let_def split: if_splits sum.splits)
  then obtain job where j: "jobs p' = sort_reverse queue_key (jobs (fst world) @ [job])" ..
  have "sorted_wrt (\<lambda>a b. queue_key b \<le> queue_key a) (jobs p')"
    unfolding j by (rule sorted_wrt_sort_reverse)
  then have 1: "sorted_wrt (\<lambda>a b. priority b < priority a
              \<or> (priority b = priority a \<and> created_at b \<le> created_at a)) (jobs p')"
    by (simp add: queue_key_le)
  then have "sorted_wrt (\<lambda>a b. priority b < priority a
              \<or> (priority b = priority a \<and> created_at b \<le> created_at a)) (pending_jobs p')"
    unfolding pending_jobs_def by (rule sorted_wrt_filter)
  with 1 show ?thesis ..
qed

lemma pad3_0: "pad3 0 = ''000''" and pad3_1: "pad3 1 = ''001''"
  by (simp_all add: pad3_def show_nat.simps numeral_2_eq_2)

text \<open>
  Claim C3 says that of two pending jobs with the same priority the one created earlier is
  selected first. Two jobs of priority 1 are added one second apart: the sort with
  \<^verbatim>\<open>reverse=True\<close> reverses the creation times as well as the priorities, and the job
  created later is first in the list of pending jobs.
\<close>

theorem add_job_equal_priority_order:
  "map created_at
     (pending_jobs (fst (snd
        (add_job ''20240101_100001'' ''2024-01-01T10:00:01'' ''b.png'' ''river'' ''haiper_20'' None 1
           (snd (add_job ''20240101_100000'' ''2024-01-01T10:00:00'' ''a.png'' ''sunset''
                   ''haiper_20'' None 1
              (init_processor ''2024-01-01T09:00:00'' 3 True ''ledger''
                 [''a.png'' \<mapsto> Other, ''b.png'' \<mapsto> Other],
               [''a.png'' \<mapsto> Other, ''b.png'' \<mapsto> Other])))))))
   = [''2024-01-01T10:00:01'', ''2024-01-01T10:00:00'']
   \<and> map priority
     (pending_jobs (fst (snd
        (add_job ''20240101_100001'' ''2024-01-01T10:00:01'' ''b.png'' ''river'' ''haiper_20'' None 1
           (snd (add_job ''20240101_100000'' ''2024-01-01T10:00:00'' ''a.png'' ''sunset''
                   ''haiper_20'' None 1
              (init_processor ''2024-01-01T09:00:00'' 3 True ''ledger''
                 [''a.png'' \<mapsto> Other, ''b.png'' \<mapsto> Other],
               [''a.png'' \<mapsto> Other, ''b.png'' \<mapsto> Other])))))))
   = [1, 1]
   \<and> ''2024-01-01T10:00:00'' < ''2024-01-01T10:00:01''"
  by (simp add: add_job_def init_processor_def load_batch_data_def Let_def strip_def
      py_isspace_def calculate_cost_def model_pricing_def model_pricing_table_def
      get_total_cost_def new_job_def post_init_def pad3_0 pad3_1 sort_reverse_def queue_key_def
      pending_jobs_def save_batch_data_def save_ops_def run_ops_def less_eq_prod_def)


section \<open>Retry and backoff\<close>

lemma handle_failure_retry:
  assumes "handle_failure auto_retry now msg j = (j', Some delay)"
  shows "auto_retry" and "retry_count j < max_retries j"
    and "j' = (fail_job now msg j)\<lparr>retry_count := retry_count j + 1, status := ''pending'',
            started_at := None, completed_at := None, error_message := None\<rparr>"
    and "delay = 2 powi (retry_count j + 1)"
  using assms
  by (auto simp: handle_failure_def Let_def can_retry_def retry_job_def fail_job_def
      split: if_splits)

lemma handle_failure_give_up:
  assumes "handle_failure auto_retry now msg j = (j', None)"
  shows "j' = fail_job now msg j" and "\<not> auto_retry \<or> max_retries j \<le> retry_count j"
  using assms
  by (auto simp: handle_failure_def Let_def can_retry_def retry_job_def fail_job_def
      split: if_splits)

text \<open>
  Claim C7, as amended. When the failure of a job is retried, \<^verbatim>\<open>retry_count\<close> is
  incremented by one, the job is \<^verbatim>\<open>pending\<close> again, and the delay before the next attempt
  is \<open>1 * 2 ^ retry_count\<close> seconds for the incremented count. No cap is applied: the
  delay is at most \<open>2 ^ max_retries\<close>, which stays under 30 seconds for \<^verbatim>\<open>max_retries\<close>
  up to 4 and is at most 4 seconds for the default \<^verbatim>\<open>max_retries = 2\<close>.
\<close>

theorem retry_backoff:
  assumes "handle_failure auto_retry now msg j = (j', Some delay)"
  shows "retry_count j' = retry_count j + 1
       \<and> status j' = ''pending''
       \<and> delay = 1 * 2 powi (retry_count j')
       \<and> retry_count j' \<le> max_retries j'
       \<and> (0 \<le> retry_count j \<longrightarrow> delay = 2 ^ nat (retry_count j')
              \<and> delay \<le> 2 ^ nat (max_retries j))
       \<and> (0 \<le> retry_count j \<and> max_retries j \<le> 4 \<longrightarrow> delay \<le> 30)
       \<and> (0 \<le> retry_count j \<and> max_retries j = 2 \<longrightarrow> delay \<le> 4)"
proof -
  note h = handle_failure_retry [OF assms]
  have rc: "retry_count j' = retry_count j + 1" and mr: "max_retries j' = max_retries j"
    and st: "status j' = ''pending''"
    by (simp_all add: h(3) fail_job_def)
  have d: "delay = 2 powi (retry_count j')"
    by (simp add: h(4) rc)
  have le: "retry_count j' \<le> max_retries j"
    using h(2) rc by simp
  have pw: "delay = 2 ^ nat (retry_count j') \<and> delay \<le> 2 ^ nat (max_retries j)"
    if "0 \<le> retry_count j"
  proof -
    have 1: "delay = 2 ^ nat (retry_count j')"
      using that by (simp add: d rc power_int_def)
    have "nat (retry_count j') \<le> nat (max_retries j)"
      using le by simp
    then have "(2::rat) ^ nat (retry_count j') \<le> 2 ^ nat (max_retries j)"
      by (intro power_increasing) simp_all
    with 1 show ?thesis by simp
  qed
  have b30: "delay \<le> 30" if "0 \<le> retry_count j" "max_retries j \<le> 4"
  proof -
    have "nat (max_retries j) \<le> 4" using that(2) by simp
    then have "(2::rat) ^ nat (max_retries j) \<le> 2 ^ 4"
      by (intro power_increasing) simp_all
    with pw [OF that(1)] show ?thesis by simp
  qed
  have b4: "delay \<le> 4" if "0 \<le> retry_count j" "max_retries j = 2"
    using pw [OF that(1)] that(2) by simp
  have d1: "delay = 1 * 2 powi (retry_count j')"
    using d by simp
  have le': "retry_count j' \<le> max_retries j'"
    using le mr by simp
  from rc st d1 le' pw b30 b4 show ?thesis by blast
qed

text \<open>
  A job with \<^verbatim>\<open>max_retries = 5\<close> that fails for the fifth time waits 32 seconds.
\<close>

theorem retry_backoff_counterexample:
  "handle_failure True ''t2'' ''boom''
     ((start_job ''t1'' (new_job ''t0'' ''job_1'' ''a.png'' ''go'' ''haiper_20'' [] 1 (1 / 5)))
        \<lparr>retry_count := 4, max_retries := 5\<rparr>)
   = ((new_job ''t0'' ''job_1'' ''a.png'' ''go'' ''haiper_20'' [] 1 (1 / 5))
        \<lparr>retry_count := 5, max_retries := 5\<rparr>, Some 32)
   \<and> (30::rat) < 32"
  by (simp add: handle_failure_def Let_def can_retry_def retry_job_def fail_job_def
      start_job_def new_job_def post_init_def power_int_def)

theorem retry_backoff_witness:
  "handle_failure True ''t2'' ''boom''
     (start_job ''t1'' (new_job ''t0'' ''job_1'' ''a.png'' ''go'' ''haiper_20'' [] 1 (1 / 5)))
   = ((new_job ''t0'' ''job_1'' ''a.png'' ''go'' ''haiper_20'' [] 1 (1 / 5))
        \<lparr>retry_count := 1\<rparr>, Some 2)
   \<and> (2::rat) \<le> 30"
proof -
  have e: "handle_failure True ''t2'' ''boom''
     (start_job ''t1'' (new_job ''t0'' ''job_1'' ''a.png'' ''go'' ''haiper_20'' [] 1 (1 / 5)))
   = ((new_job ''t0'' ''job_1'' ''a.png'' ''go'' ''haiper_20'' [] 1 (1 / 5))
        \<lparr>retry_count := 1\<rparr>, Some 2)"
    by (simp add: handle_failure_def Let_def can_retry_def retry_job_def fail_job_def
      start_job_def new_job_def post_init_def power_int_def)
  from retry_backoff [OF e] show ?thesis
    using e by simp
qed

section \<open>Terminal states\<close>

text \<open>
  Claim C4 says that a job in a terminal state never changes its status again. The code
  leaves a completed job in \<^verbatim>\<open>self.jobs\<close> (only a load moves it to
  \<^verbatim>\<open>completed_jobs\<close>), where \<^verbatim>\<open>remove_job\<close> finds it and cancels it without looking
  at its status: the completed job below ends as \<^verbatim>\<open>cancelled\<close> in \<^verbatim>\<open>failed_jobs\<close>.
\<close>

theorem remove_job_cancels_completed_job:
  "status (complete_job ''t2'' [(''video'', PStr ''v.mp4'')] None
      (start_job ''t1'' (new_job ''t0'' ''job_1'' ''a.png'' ''go'' ''haiper_20'' [] 1 (1 / 5))))
     = ''completed''
   \<and> fst (remove_job ''t3'' ''job_1''
        (\<lparr>max_concurrent = 3, save_progress = True, batch_file = ''ledger'',
          jobs = [complete_job ''t2'' [(''video'', PStr ''v.mp4'')] None
            (start_job ''t1'' (new_job ''t0'' ''job_1'' ''a.png'' ''go'' ''haiper_20'' [] 1 (1 / 5)))],
          active_jobs = [], completed_jobs = [], failed_jobs = [], stats = zero_stats\<rparr>,
         Map.empty))
   \<and> map status (failed_jobs (fst (snd (remove_job ''t3'' ''job_1''
        (\<lparr>max_concurrent = 3, save_progress = True, batch_file = ''ledger'',
          jobs = [complete_job ''t2'' [(''video'', PStr ''v.mp4'')] None
            (start_job ''t1'' (new_job ''t0'' ''job_1'' ''a.png'' ''go'' ''haiper_20'' [] 1 (1 / 5)))],
          active_jobs = [], completed_jobs = [], failed_jobs = [], stats = zero_stats\<rparr>,
         Map.empty)))))
     = [''cancelled'']
   \<and> jobs (fst (snd (remove_job ''t3'' ''job_1''
        (\<lparr>max_concurrent = 3, save_progress = True, batch_file = ''ledger'',
          jobs = [complete_job ''t2'' [(''video'', PStr ''v.mp4'')] None
            (start_job ''t1'' (new_job ''t0'' ''job_1'' ''a.png'' ''go'' ''haiper_20'' [] 1 (1 / 5)))],
          active_jobs = [], completed_jobs = [], failed_jobs = [], stats = zero_stats\<rparr>,
         Map.empty)))) = []"
  by (simp add: remove_job_def Let_def complete_job_def start_job_def new_job_def post_init_def
      cancel_job_def)


section \<open>A batch run: the semaphore\<close>

text \<open>Jobs as \<^verbatim>\<open>add_job\<close> builds them, for the model \<^verbatim>\<open>haiper_20\<close> and no parameters.\<close>

lemma new_job_fields [simp]:
  "priority (new_job now jid path pr mdl ps prio cost) = prio"
  "created_at (new_job now jid path pr mdl ps prio cost) = now"
  "retry_count (new_job now jid path pr mdl ps prio cost) = 0"
  "max_retries (new_job now jid path pr mdl ps prio cost) = 2"
  by (simp_all add: new_job_def post_init_def)

lemma pad3_small [simp]:
  "pad3 0 = ''000''" "pad3 (Suc 0) = ''001''" "pad3 (Suc (Suc 0)) = ''002''"
  "pad3 (Suc (Suc (Suc 0))) = ''003''"
  by (simp_all add: pad3_def show_nat.simps numeral_2_eq_2)

lemma haiper_cost: "calculate_cost ''haiper_20'' (PInt 5) = Inr c \<Longrightarrow> get_total_cost c = 1 / 5"
  by (auto simp: calculate_cost_def model_pricing_def model_pricing_table_def Let_def
        get_total_cost_def)

lemma save_other_path:
  "path \<noteq> batch_file p \<Longrightarrow> save_batch_data now p files path = files path"
  by (simp add: save_batch_data_def save_ops_def run_ops_def)

lemma add_job_haiper:
  assumes "files path \<noteq> None" and "strip pr \<noteq> []"
  shows "add_job stamp now path pr ''haiper_20'' None prio (p, files) =
    (Inr (''job_'' @ stamp @ ''_'' @ pad3 (length (jobs p))),
     p\<lparr>jobs := sort_reverse queue_key
          (jobs p @ [new_job now (''job_'' @ stamp @ ''_'' @ pad3 (length (jobs p)))
                       path pr ''haiper_20'' [] prio (1 / 5)]),
       stats := (stats p)\<lparr>total_jobs := total_jobs (stats p) + 1,
                          total_cost := total_cost (stats p) + 1 / 5\<rparr>\<rparr>,
     save_batch_data now
       (p\<lparr>jobs := sort_reverse queue_key
          (jobs p @ [new_job now (''job_'' @ stamp @ ''_'' @ pad3 (length (jobs p)))
                       path pr ''haiper_20'' [] prio (1 / 5)]),
         stats := (stats p)\<lparr>total_jobs := total_jobs (stats p) + 1,
                          total_cost := total_cost (stats p) + 1 / 5\<rparr>\<rparr>) files)"
proof -
  obtain c where c: "calculate_cost ''haiper_20'' (PInt 5) = Inr c"
    using calculate_cost_int by blast
  from add_job_accepts [of "(p, files)" path pr "''haiper_20''" None c stamp now prio] assms c
    haiper_cost [OF c]
  show ?thesis by (simp add: Let_def)
qed

lemma add_job_haiper_world:
  assumes "snd w path \<noteq> None" and "strip pr \<noteq> []" and "path \<noteq> batch_file (fst w)"
  shows "jobs (fst (snd (add_job stamp now path pr ''haiper_20'' None prio w))) =
           sort_reverse queue_key (jobs (fst w) @
             [new_job now (''job_'' @ stamp @ ''_'' @ pad3 (length (jobs (fst w))))
                path pr ''haiper_20'' [] prio (1 / 5)])"
    and "batch_file (fst (snd (add_job stamp now path pr ''haiper_20'' None prio w))) =
           batch_file (fst w)"
    and "max_concurrent (fst (snd (add_job stamp now path pr ''haiper_20'' None prio w))) =
           max_concurrent (fst w)"
    and "active_jobs (fst (snd (add_job stamp now path pr ''haiper_20'' None prio w))) =
           active_jobs (fst w)"
    and "snd (snd (add_job stamp now path pr ''haiper_20'' None prio w)) path \<noteq> None"
  using assms by (cases w; simp add: add_job_haiper save_other_path)+

lemma remove_job_world:
  assumes "find_index_id jid (jobs (fst w)) = Some i"
  shows "jobs (fst (snd (remove_job now jid w))) =
           take i (jobs (fst w)) @ drop (Suc i) (jobs (fst w))"
    and "batch_file (fst (snd (remove_job now jid w))) = batch_file (fst w)"
    and "max_concurrent (fst (snd (remove_job now jid w))) = max_concurrent (fst w)"
    and "active_jobs (fst w) = [] \<Longrightarrow> active_jobs (fst (snd (remove_job now jid w))) = []"
    and "path \<noteq> batch_file (fst w) \<Longrightarrow> snd (snd (remove_job now jid w)) path = snd w path"
  using assms by (simp_all add: remove_job_def Let_def save_other_path)

lemma init_processor_new:
  "files path = None \<Longrightarrow> init_processor now n sp path files =
     \<lparr>max_concurrent = n, save_progress = sp, batch_file = path, jobs = [],
      active_jobs = [], completed_jobs = [], failed_jobs = [], stats = zero_stats\<rparr>"
  by (simp add: init_processor_def load_batch_data_def)

lemma queue_key_le_new [simp]:
  "queue_key (new_job now jid path pr mdl ps prio cost)
     \<le> queue_key (new_job now' jid' path' pr' mdl' ps' prio' cost')
   \<longleftrightarrow> prio < prio' \<or> (prio = prio' \<and> now \<le> now')"
  by (auto simp: queue_key_def less_eq_prod_def)

lemma strip_words: "strip ''one'' \<noteq> []" "strip ''two'' \<noteq> []" "strip ''three'' \<noteq> []"
  "strip ''four'' \<noteq> []" "strip ''five'' \<noteq> []"
  by (simp_all add: strip_def py_isspace_def)

text \<open>
  A run of four pending jobs under two slots, the first two with the same id: the tasks of
  the first two jobs start; \<^verbatim>\<open>remove_job\<close> with that id cancels the first job and the
  task of the second, which is the one \<^verbatim>\<open>self.active_jobs\<close> holds for the id; the
  cancelled task gives its slot back and leaves its job \<^verbatim>\<open>processing\<close>; the third job
  starts; the task of the first job, which was not cancelled, completes; the fourth job
  starts.
\<close>

lemma job_method_fields [simp]:
  "status (start_job now j) = ''processing''" "id_job (start_job now j) = id_job j"
  "status (cancel_job now j) = ''cancelled''" "id_job (cancel_job now j) = id_job j"
  "status (complete_job now res None j) = ''completed''"
  by (simp_all add: start_job_def cancel_job_def complete_job_def)

lemma pending_refs_four:
  assumes st: "status C = ''pending''" "status B = ''pending''" "status E = ''pending''"
      "status D = ''pending''"
    and p: "jobs p = [C, B, E, D]"
  shows "pending_refs p = [0, 1, 2, 3]"
proof -
  have "[0..<length (jobs p)] = [0, 1, 2, 3]" by (simp add: p upt_conv_Cons)
  then show ?thesis by (simp add: pending_refs_def p st)
qed

lemma start_batch_four:
  assumes st: "status C = ''pending''" "status B = ''pending''" "status E = ''pending''"
      "status D = ''pending''"
    and p: "jobs p = [C, B, E, D]" "max_concurrent p = 2" "active_jobs p = []"
  shows "start_batch p = Some (Inr \<lparr>free = 2, store = [C, B, E, D], queue = [0, 1, 2, 3],
     active = register_tasks [C, B, E, D] [0, 1, 2, 3] 0 (\<lambda>jid. None),
    tasks = map new_task [0, 1, 2, 3]\<rparr>)"
proof -
  have q: "[0..<length (jobs p)] = [0, 1, 2, 3]" by (simp add: p upt_conv_Cons)
  show ?thesis
    unfolding start_batch_def pending_jobs_def pending_refs_four [OF st p(1)] q
    by (simp add: p st)
qed

lemma register_tasks_four:
  assumes ids: "id_job C = jid" "id_job B = jid" "id_job E \<noteq> jid" "id_job D \<noteq> jid"
  shows "register_tasks [C, B, E, D] [0, 1, 2, 3] 0 (\<lambda>jid. None) jid = Some (Some 1)"
  using ids by simp

lemma seven_steps:
  assumes "r s0 s1" "r s1 s2" "r s2 s3" "r s3 s4" "r s4 s5" "r s5 s6" "r s6 s7"
  shows "r\<^sup>*\<^sup>* s0 s7"
  using assms by (meson rtranclp.rtrancl_into_rtrancl rtranclp.rtrancl_refl)

lemma duplicate_id_run:
  assumes ids: "id_job C = jid" "id_job B = jid" "id_job E \<noteq> jid" "id_job D \<noteq> jid"
    and st: "status C = ''pending''" "status B = ''pending''" "status E = ''pending''"
      "status D = ''pending''"
    and p: "jobs p = [C, B, E, D]" "max_concurrent p = 2" "active_jobs p = []"
    and s0: "s0 = \<lparr>free = 2, store = [C, B, E, D], queue = [0, 1, 2, 3],
                  active = register_tasks [C, B, E, D] [0, 1, 2, 3] 0 (\<lambda>jid. None),
                  tasks = map new_task [0, 1, 2, 3]\<rparr>"
    and s: "s = acquire_slot n7 3 (complete_task n6 res None 0 (acquire_slot n5 2
                  (unwind_task 1 (remove_running n3 jid
                    (acquire_slot n2 1 (acquire_slot n1 0 s0))))))"
  shows "start_batch p = Some (Inr s0)"
    and "(step auto_retry (succeeding res))\<^sup>*\<^sup>* s0 s"
    and "free s = 0"
    and "map pc (tasks s) = [Finished, Finished, Generating 1, Generating 1]"
    and "map status (store s) = [''completed'', ''processing'', ''processing'', ''processing'']"
proof -
  define act :: "string \<rightharpoonup> nat option"
    where "act = register_tasks [C, B, E, D] [0, 1, 2, 3] 0 (\<lambda>jid. None)"
  define s1 where "s1 = acquire_slot n1 0 s0"
  define s2 where "s2 = acquire_slot n2 1 s1"
  define s3 where "s3 = remove_running n3 jid s2"
  define s4 where "s4 = unwind_task 1 s3"
  define s5 where "s5 = acquire_slot n5 2 s4"
  define s6 where "s6 = complete_task n6 res None 0 s5"
  have s7: "s = acquire_slot n7 3 s6"
    by (simp only: s s6_def s5_def s4_def s3_def s2_def s1_def)
  have e0: "s0 = \<lparr>free = 2, store = [C, B, E, D], queue = [0, 1, 2, 3], active = act,
      tasks = map new_task [0, 1, 2, 3]\<rparr>"
    by (simp only: s0 act_def)
  show "start_batch p = Some (Inr s0)"
    unfolding s0 by (rule start_batch_four [OF st p])
  have act: "act jid = Some (Some 1)"
    unfolding act_def by (rule register_tasks_four [OF ids])
  have e1: "s1 = \<lparr>free = 1, store = [start_job n1 C, B, E, D], queue = [0, 1, 2, 3],
      active = act,
      tasks = [\<lparr>job_ref = 0, pc = Generating 1, attempts = 1\<rparr>, new_task 1, new_task 2,
               new_task 3]\<rparr>"
    by (simp add: s1_def e0 acquire_slot_def new_task_def)
  have e2: "s2 = \<lparr>free = 0, store = [start_job n1 C, start_job n2 B, E, D],
      queue = [0, 1, 2, 3], active = act,
      tasks = [\<lparr>job_ref = 0, pc = Generating 1, attempts = 1\<rparr>,
               \<lparr>job_ref = 1, pc = Generating 1, attempts = 1\<rparr>, new_task 2, new_task 3]\<rparr>"
    by (simp add: s2_def e1 acquire_slot_def new_task_def)
  have e3: "s3 = \<lparr>free = 0,
      store = [cancel_job n3 (start_job n1 C), start_job n2 B, E, D],
      queue = [1, 2, 3], active = act(jid := None),
      tasks = [\<lparr>job_ref = 0, pc = Generating 1, attempts = 1\<rparr>,
               \<lparr>job_ref = 1, pc = Unwinding 1, attempts = 1\<rparr>, new_task 2, new_task 3]\<rparr>"
    by (simp add: s3_def e2 remove_running_def cancel_entry_def ids act)
  have e4: "s4 = \<lparr>free = 1,
      store = [cancel_job n3 (start_job n1 C), start_job n2 B, E, D],
      queue = [1, 2, 3], active = act(jid := None),
      tasks = [\<lparr>job_ref = 0, pc = Generating 1, attempts = 1\<rparr>,
               \<lparr>job_ref = 1, pc = Finished, attempts = 1\<rparr>, new_task 2, new_task 3]\<rparr>"
    by (simp add: s4_def e3 unwind_task_def)
  have e5: "s5 = \<lparr>free = 0,
      store = [cancel_job n3 (start_job n1 C), start_job n2 B, start_job n5 E, D],
      queue = [1, 2, 3], active = act(jid := None),
      tasks = [\<lparr>job_ref = 0, pc = Generating 1, attempts = 1\<rparr>,
               \<lparr>job_ref = 1, pc = Finished, attempts = 1\<rparr>,
               \<lparr>job_ref = 2, pc = Generating 1, attempts = 1\<rparr>, new_task 3]\<rparr>"
    by (simp add: s5_def e4 acquire_slot_def new_task_def)
  have e6: "s6 = \<lparr>free = 1,
      store = [complete_job n6 res None (cancel_job n3 (start_job n1 C)),
               start_job n2 B, start_job n5 E, D],
      queue = [1, 2, 3], active = act(jid := None),
      tasks = [\<lparr>job_ref = 0, pc = Finished, attempts = 1\<rparr>,
               \<lparr>job_ref = 1, pc = Finished, attempts = 1\<rparr>,
               \<lparr>job_ref = 2, pc = Generating 1, attempts = 1\<rparr>, new_task 3]\<rparr>"
    by (simp add: s6_def e5 complete_task_def)
  have e7: "s = \<lparr>free = 0,
      store = [complete_job n6 res None (cancel_job n3 (start_job n1 C)),
               start_job n2 B, start_job n5 E, start_job n7 D],
      queue = [1, 2, 3], active = act(jid := None),
      tasks = [\<lparr>job_ref = 0, pc = Finished, attempts = 1\<rparr>,
               \<lparr>job_ref = 1, pc = Finished, attempts = 1\<rparr>,
               \<lparr>job_ref = 2, pc = Generating 1, attempts = 1\<rparr>,
               \<lparr>job_ref = 3, pc = Generating 1, attempts = 1\<rparr>]\<rparr>"
    by (simp add: s7 e6 acquire_slot_def new_task_def)
  have t1: "step auto_retry (succeeding res) s0 s1"
    unfolding s1_def by (rule step.acquire [where d = 0]) (simp_all add: e0 new_task_def)
  have t2: "step auto_retry (succeeding res) s1 s2"
    unfolding s2_def by (rule step.acquire [where d = 0]) (simp_all add: e1 new_task_def)
  have t3: "step auto_retry (succeeding res) s2 s3"
    unfolding s3_def by (rule step.remove)
  have t4: "step auto_retry (succeeding res) s3 s4"
    unfolding s4_def by (rule step.unwind [where d = 1]) (simp_all add: e3)
  have t5: "step auto_retry (succeeding res) s4 s5"
    unfolding s5_def by (rule step.acquire [where d = 0]) (simp_all add: e4 new_task_def)
  have t6: "step auto_retry (succeeding res) s5 s6"
    unfolding s6_def
    by (rule step.succeed [where d = 1]) (simp_all add: e5 succeeding_def)
  have t7: "step auto_retry (succeeding res) s6 s"
    unfolding s7 by (rule step.acquire [where d = 0]) (simp_all add: e6 new_task_def)
  show "(step auto_retry (succeeding res))\<^sup>*\<^sup>* s0 s"
    by (rule seven_steps [where r = "step auto_retry (succeeding res)",
          OF t1 t2 t3 t4 t5 t6 t7])
  show "free s = 0" "map pc (tasks s) = [Finished, Finished, Generating 1, Generating 1]"
    "map status (store s) = [''completed'', ''processing'', ''processing'', ''processing'']"
    by (simp_all add: e7)
qed

text \<open>
  Claim C1 says that at no instant of a batch run with concurrency limit \<open>N\<close> more than
  \<open>N\<close> jobs are \<^verbatim>\<open>processing\<close>. \<^verbatim>\<open>add_job\<close> numbers a job with the length of
  \<^verbatim>\<open>self.jobs\<close>, so that after a removal it issues an id a second time: four jobs are
  added within one second, the first is removed, and the fifth job gets the id of the
  fourth. In the run of these four jobs under two slots, \<^verbatim>\<open>remove_job\<close> with the
  repeated id cancels the fifth job, which is first in the queue, and the task of the
  fourth, which \<^verbatim>\<open>self.active_jobs\<close> holds for that id: the fourth job stays
  \<^verbatim>\<open>processing\<close> with no task and no slot, and when the other two jobs have started,
  three jobs are \<^verbatim>\<open>processing\<close>.
\<close>

theorem duplicate_id_breaks_bound:
  "\<exists>w1 w2 w3 w4 w5 w6 s0 s.
     w1 = snd (add_job ''20240101_100000'' ''2024-01-01T10:00:00.100000'' ''a.png'' ''one''
                 ''haiper_20'' None 1
                 (init_processor ''2024-01-01T09:00:00'' 2 True ''ledger'' [''a.png'' \<mapsto> Other],
                  [''a.png'' \<mapsto> Other]))
   \<and> w2 = snd (add_job ''20240101_100000'' ''2024-01-01T10:00:00.200000'' ''a.png'' ''two''
                 ''haiper_20'' None 1 w1)
   \<and> w3 = snd (add_job ''20240101_100000'' ''2024-01-01T10:00:00.300000'' ''a.png'' ''three''
                 ''haiper_20'' None 1 w2)
   \<and> w4 = snd (add_job ''20240101_100000'' ''2024-01-01T10:00:00.400000'' ''a.png'' ''four''
                 ''haiper_20'' None 1 w3)
   \<and> w5 = snd (remove_job ''2024-01-01T10:00:00.500000'' ''job_20240101_100000_000'' w4)
   \<and> w6 = snd (add_job ''20240101_100000'' ''2024-01-01T10:00:00.600000'' ''a.png'' ''five''
                 ''haiper_20'' None 1 w5)
   \<and> map id_job (jobs (fst w6)) =
         [''job_20240101_100000_003'', ''job_20240101_100000_003'',
          ''job_20240101_100000_002'', ''job_20240101_100000_001'']
   \<and> map prompt (jobs (fst w6)) = [''five'', ''four'', ''three'', ''two'']
   \<and> max_concurrent (fst w6) = 2
   \<and> start_batch (fst w6) = Some (Inr s0)
   \<and> free s0 = 2
   \<and> store s0 = jobs (fst w6)
   \<and> s = acquire_slot ''2024-01-01T10:00:09'' 3
           (complete_task ''2024-01-01T10:00:08'' [] None 0
             (acquire_slot ''2024-01-01T10:00:07'' 2
               (unwind_task 1
                 (remove_running ''2024-01-01T10:00:05'' ''job_20240101_100000_003''
                   (acquire_slot ''2024-01-01T10:00:04'' 1
                     (acquire_slot ''2024-01-01T10:00:03'' 0 s0))))))
   \<and> (step True (succeeding []))\<^sup>*\<^sup>* s0 s
   \<and> map status (store s) = [''completed'', ''processing'', ''processing'', ''processing'']
   \<and> processing_count s = 3"
proof -
  define F0 :: fs where "F0 = [''a.png'' \<mapsto> Other]"
  define w0 where "w0 = (init_processor ''2024-01-01T09:00:00'' 2 True ''ledger'' F0, F0)"
  define w1 where "w1 = snd (add_job ''20240101_100000'' ''2024-01-01T10:00:00.100000''
    ''a.png'' ''one'' ''haiper_20'' None 1 w0)"
  define w2 where "w2 = snd (add_job ''20240101_100000'' ''2024-01-01T10:00:00.200000''
    ''a.png'' ''two'' ''haiper_20'' None 1 w1)"
  define w3 where "w3 = snd (add_job ''20240101_100000'' ''2024-01-01T10:00:00.300000''
    ''a.png'' ''three'' ''haiper_20'' None 1 w2)"
  define w4 where "w4 = snd (add_job ''20240101_100000'' ''2024-01-01T10:00:00.400000''
    ''a.png'' ''four'' ''haiper_20'' None 1 w3)"
  define w5 where "w5 = snd (remove_job ''2024-01-01T10:00:00.500000''
    ''job_20240101_100000_000'' w4)"
  define w6 where "w6 = snd (add_job ''20240101_100000'' ''2024-01-01T10:00:00.600000''
    ''a.png'' ''five'' ''haiper_20'' None 1 w5)"
  define J1 where "J1 = new_job ''2024-01-01T10:00:00.100000'' ''job_20240101_100000_000''
    ''a.png'' ''one'' ''haiper_20'' [] 1 (1 / 5)"
  define J2 where "J2 = new_job ''2024-01-01T10:00:00.200000'' ''job_20240101_100000_001''
    ''a.png'' ''two'' ''haiper_20'' [] 1 (1 / 5)"
  define J3 where "J3 = new_job ''2024-01-01T10:00:00.300000'' ''job_20240101_100000_002''
    ''a.png'' ''three'' ''haiper_20'' [] 1 (1 / 5)"
  define J4 where "J4 = new_job ''2024-01-01T10:00:00.400000'' ''job_20240101_100000_003''
    ''a.png'' ''four'' ''haiper_20'' [] 1 (1 / 5)"
  define J5 where "J5 = new_job ''2024-01-01T10:00:00.600000'' ''job_20240101_100000_003''
    ''a.png'' ''five'' ''haiper_20'' [] 1 (1 / 5)"
  note J = J1_def J2_def J3_def J4_def J5_def
  have neq: "''a.png'' \<noteq> ''ledger''" by simp
  have p0: "fst w0 = \<lparr>max_concurrent = 2, save_progress = True, batch_file = ''ledger'',
      jobs = [], active_jobs = [], completed_jobs = [], failed_jobs = [], stats = zero_stats\<rparr>"
    by (simp add: w0_def F0_def init_processor_new)
  have i0: "snd w0 ''a.png'' \<noteq> None" "batch_file (fst w0) = ''ledger''"
    "max_concurrent (fst w0) = 2" "active_jobs (fst w0) = []" "jobs (fst w0) = []"
    by (simp_all add: p0) (simp add: w0_def F0_def)
  have a1: "snd w0 ''a.png'' \<noteq> None" "strip ''one'' \<noteq> []" "''a.png'' \<noteq> batch_file (fst w0)"
    using i0 strip_words by simp_all
  have i1: "snd w1 ''a.png'' \<noteq> None" "batch_file (fst w1) = ''ledger''"
    "max_concurrent (fst w1) = 2" "active_jobs (fst w1) = []" "jobs (fst w1) = [J1]"
    unfolding w1_def using add_job_haiper_world [OF a1] i0 by (simp_all add: J sort_reverse_def)
  have a2: "snd w1 ''a.png'' \<noteq> None" "strip ''two'' \<noteq> []" "''a.png'' \<noteq> batch_file (fst w1)"
    using i1 strip_words by simp_all
  have i2: "snd w2 ''a.png'' \<noteq> None" "batch_file (fst w2) = ''ledger''"
    "max_concurrent (fst w2) = 2" "active_jobs (fst w2) = []" "jobs (fst w2) = [J2, J1]"
    unfolding w2_def using add_job_haiper_world [OF a2] i1
    by (simp_all add: J sort_reverse_def)
  have a3: "snd w2 ''a.png'' \<noteq> None" "strip ''three'' \<noteq> []" "''a.png'' \<noteq> batch_file (fst w2)"
    using i2 strip_words by simp_all
  have i3: "snd w3 ''a.png'' \<noteq> None" "batch_file (fst w3) = ''ledger''"
    "max_concurrent (fst w3) = 2" "active_jobs (fst w3) = []" "jobs (fst w3) = [J3, J2, J1]"
    unfolding w3_def using add_job_haiper_world [OF a3] i2 i1(5)
    by (simp_all add: J sort_reverse_def)
  have a4: "snd w3 ''a.png'' \<noteq> None" "strip ''four'' \<noteq> []" "''a.png'' \<noteq> batch_file (fst w3)"
    using i3 strip_words by simp_all
  have i4: "snd w4 ''a.png'' \<noteq> None" "batch_file (fst w4) = ''ledger''"
    "max_concurrent (fst w4) = 2" "active_jobs (fst w4) = []" "jobs (fst w4) = [J4, J3, J2, J1]"
    unfolding w4_def using add_job_haiper_world [OF a4] i3
    by (simp_all add: J sort_reverse_def)
  have a5: "find_index_id ''job_20240101_100000_000'' (jobs (fst w4)) = Some 3"
    by (simp add: i4 J)
  have i5: "snd w5 ''a.png'' \<noteq> None" "batch_file (fst w5) = ''ledger''"
    "max_concurrent (fst w5) = 2" "active_jobs (fst w5) = []" "jobs (fst w5) = [J4, J3, J2]"
    unfolding w5_def using remove_job_world [OF a5] i4 by simp_all
  have a6: "snd w5 ''a.png'' \<noteq> None" "strip ''five'' \<noteq> []" "''a.png'' \<noteq> batch_file (fst w5)"
    using i5 strip_words by simp_all
  have i6: "max_concurrent (fst w6) = 2" "active_jobs (fst w6) = []"
    "jobs (fst w6) = [J5, J4, J3, J2]"
    unfolding w6_def using add_job_haiper_world [OF a6] i5
    by (simp_all add: J sort_reverse_def)
  have ids: "map id_job (jobs (fst w6)) =
         [''job_20240101_100000_003'', ''job_20240101_100000_003'',
          ''job_20240101_100000_002'', ''job_20240101_100000_001'']"
    and prompts: "map prompt (jobs (fst w6)) = [''five'', ''four'', ''three'', ''two'']"
    by (simp_all add: i6 J new_job_def post_init_def)
  define s0 where "s0 = \<lparr>free = 2, store = [J5, J4, J3, J2], queue = [0, 1, 2, 3],
    active = register_tasks [J5, J4, J3, J2] [0, 1, 2, 3] 0 (\<lambda>jid. None),
    tasks = map new_task [0, 1, 2, 3]\<rparr>"
  define s where "s = acquire_slot ''2024-01-01T10:00:09'' 3
           (complete_task ''2024-01-01T10:00:08'' [] None 0
             (acquire_slot ''2024-01-01T10:00:07'' 2
               (unwind_task 1
                 (remove_running ''2024-01-01T10:00:05'' ''job_20240101_100000_003''
                   (acquire_slot ''2024-01-01T10:00:04'' 1
                     (acquire_slot ''2024-01-01T10:00:03'' 0 s0))))))"
  have jid: "id_job J5 = ''job_20240101_100000_003''" "id_job J4 = ''job_20240101_100000_003''"
    "id_job J3 \<noteq> ''job_20240101_100000_003''" "id_job J2 \<noteq> ''job_20240101_100000_003''"
    and pen: "status J5 = ''pending''" "status J4 = ''pending''" "status J3 = ''pending''"
      "status J2 = ''pending''"
    by (simp_all add: J)
  note d = duplicate_id_run [OF jid pen i6(3,1,2) s0_def s_def]
  have f0: "free s0 = 2" and g0: "store s0 = jobs (fst w6)"
    by (simp_all add: s0_def i6)
  note run = d(1) f0 g0 s_def d(2) d(5)
  have "length (filter (\<lambda>j. status j = ''processing'') (store s)) =
        length (filter (\<lambda>st. st = ''processing'') (map status (store s)))"
    by (simp add: filter_map comp_def)
  then have cnt: "processing_count s = 3"
    by (simp add: processing_count_def d(5))
  note fin = ids prompts i6(1) run cnt
  note fin' = fin [unfolded w6_def w5_def w4_def w3_def w2_def w1_def w0_def F0_def]
  show ?thesis
    apply (intro exI conjI)
                  apply (rule refl)+
            apply (rule fin')+
    done
qed

section \<open>A batch run: retries\<close>

text \<open>
  A state in which no slot is free, every task waits for a slot and no job is
  \<^verbatim>\<open>processing\<close> is left by no task: the one step it can take is a call of
  \<^verbatim>\<open>remove_job\<close>, which cancels a job and no task.
\<close>

lemma find_index_id_less: "find_index_id jid xs = Some q \<Longrightarrow> q < length xs"
  by (induction xs arbitrary: q) (auto split: if_splits)

lemma cancel_job_counts [simp]:
  "retry_count (cancel_job now j) = retry_count j" "max_retries (cancel_job now j) = max_retries j"
  by (simp_all add: cancel_job_def)

lemma remove_running_idle:
  assumes idle: "\<forall>a<length (store s). status (store s ! a) \<noteq> ''processing''"
    and refs: "\<forall>a\<in>set (queue s). a < length (store s)"
  shows "remove_running now jid s = s
       \<or> (\<exists>q<length (queue s).
            remove_running now jid s =
              s\<lparr>store := (store s)[queue s ! q := cancel_job now (store s ! (queue s ! q))],
                queue := take q (queue s) @ drop (Suc q) (queue s)\<rparr>)"
proof (cases "find_index_id jid (map (\<lambda>a. store s ! a) (queue s))")
  case None
  then show ?thesis by (simp add: remove_running_def)
next
  case (Some q)
  from find_index_id_less [OF Some] have q: "q < length (queue s)" by simp
  then have "queue s ! q \<in> set (queue s)" by (rule nth_mem)
  with refs have "queue s ! q < length (store s)" by blast
  with idle have "status (store s ! (queue s ! q)) \<noteq> ''processing''" by blast
  then have "remove_running now jid s =
      s\<lparr>store := (store s)[queue s ! q := cancel_job now (store s ! (queue s ! q))],
        queue := take q (queue s) @ drop (Suc q) (queue s)\<rparr>"
    by (simp add: remove_running_def Some Let_def)
  with q show ?thesis by blast
qed

lemma remove_running_blocked:
  assumes idle: "\<forall>a<length (store s). status (store s ! a) \<noteq> ''processing''"
    and refs: "\<forall>a\<in>set (queue s). a < length (store s)"
  shows "free (remove_running now jid s) = free s"
    and "tasks (remove_running now jid s) = tasks s"
    and "length (store (remove_running now jid s)) = length (store s)"
    and "\<forall>a\<in>set (queue (remove_running now jid s)). a < length (store s)"
    and "\<forall>a<length (store s).
           (status (store (remove_running now jid s) ! a) = status (store s ! a)
            \<or> status (store (remove_running now jid s) ! a) = ''cancelled'')
         \<and> retry_count (store (remove_running now jid s) ! a) = retry_count (store s ! a)"
proof -
  from remove_running_idle [OF idle refs, of now jid]
  consider "remove_running now jid s = s"
    | q where "q < length (queue s)"
        "remove_running now jid s =
           s\<lparr>store := (store s)[queue s ! q := cancel_job now (store s ! (queue s ! q))],
             queue := take q (queue s) @ drop (Suc q) (queue s)\<rparr>"
    by blast
  then have "free (remove_running now jid s) = free s
    \<and> tasks (remove_running now jid s) = tasks s
    \<and> length (store (remove_running now jid s)) = length (store s)
    \<and> (\<forall>a\<in>set (queue (remove_running now jid s)). a < length (store s))
    \<and> (\<forall>a<length (store s).
           (status (store (remove_running now jid s) ! a) = status (store s ! a)
            \<or> status (store (remove_running now jid s) ! a) = ''cancelled'')
         \<and> retry_count (store (remove_running now jid s) ! a) = retry_count (store s ! a))"
  proof cases
    case 1
    with refs show ?thesis by simp
  next
    case 2
    have "set (take q (queue s) @ drop (Suc q) (queue s)) \<subseteq> set (queue s)"
      using set_take_subset [of q "queue s"] set_drop_subset [of "Suc q" "queue s"] by auto
    with refs have "\<forall>a\<in>set (take q (queue s) @ drop (Suc q) (queue s)). a < length (store s)"
      by blast
    moreover from 2(1) refs have "queue s ! q < length (store s)"
      using nth_mem [of q "queue s"] by blast
    ultimately show ?thesis
      unfolding 2(2) by (auto simp: nth_list_update)
  qed
  then show "free (remove_running now jid s) = free s"
    and "tasks (remove_running now jid s) = tasks s"
    and "length (store (remove_running now jid s)) = length (store s)"
    and "\<forall>a\<in>set (queue (remove_running now jid s)). a < length (store s)"
    and "\<forall>a<length (store s).
           (status (store (remove_running now jid s) ! a) = status (store s ! a)
            \<or> status (store (remove_running now jid s) ! a) = ''cancelled'')
         \<and> retry_count (store (remove_running now jid s) ! a) = retry_count (store s ! a)"
    by blast+
qed

lemma blocked_forever:
  assumes "(step ar gen)\<^sup>*\<^sup>* s s'"
    and "free s = 0"
    and "\<forall>t\<in>set (tasks s). \<exists>d. pc t = Acquiring d"
    and "\<forall>a<length (store s). status (store s ! a) = ''pending''"
    and "\<forall>a\<in>set (queue s). a < length (store s)"
  shows "free s' = 0 \<and> tasks s' = tasks s \<and> length (store s') = length (store s)
       \<and> (\<forall>a\<in>set (queue s'). a < length (store s))
       \<and> (\<forall>a<length (store s).
             (status (store s' ! a) = ''pending'' \<or> status (store s' ! a) = ''cancelled'')
           \<and> retry_count (store s' ! a) = retry_count (store s ! a))"
  using assms
proof (induction rule: rtranclp_induct)
  case base
  then show ?case by simp
next
  case (step y z)
  from step.IH step.prems
  have inv: "free y = 0" "tasks y = tasks s" "length (store y) = length (store s)"
    "\<forall>a\<in>set (queue y). a < length (store y)"
    "\<forall>a<length (store s).
        (status (store y ! a) = ''pending'' \<or> status (store y ! a) = ''cancelled'')
      \<and> retry_count (store y ! a) = retry_count (store s ! a)"
    by simp_all
  have idle: "\<forall>a<length (store y). status (store y ! a) \<noteq> ''processing''"
    using inv(3,5) by auto
  have acq: "\<exists>d. pc (tasks y ! i) = Acquiring d" if "i < length (tasks y)" for i
    using step.prems(2) that inv(2) nth_mem [of i "tasks s"] by auto
  from step.hyps(2) show ?case
  proof (cases rule: step.cases)
    case (acquire i d now)
    with inv(1) show ?thesis by simp
  next
    case (succeed i d res paths now)
    with acq [of i] show ?thesis by auto
  next
    case (failure i d msg now)
    with acq [of i] show ?thesis by auto
  next
    case (wake i d delay)
    with acq [of i] show ?thesis by auto
  next
    case (unwind i d)
    with acq [of i] show ?thesis by auto
  next
    case (remove now jid)
    note r = remove_running_blocked [OF idle inv(4), of now jid]
    have "(status (store z ! a) = ''pending'' \<or> status (store z ! a) = ''cancelled'')
        \<and> retry_count (store z ! a) = retry_count (store s ! a)" if "a < length (store s)" for a
    proof -
      from that inv(3) have a: "a < length (store y)" by simp
      from r(5) a
      have "(status (store z ! a) = status (store y ! a) \<or> status (store z ! a) = ''cancelled'')
          \<and> retry_count (store z ! a) = retry_count (store y ! a)"
        unfolding remove by blast
      moreover from inv(5) that
      have "(status (store y ! a) = ''pending'' \<or> status (store y ! a) = ''cancelled'')
          \<and> retry_count (store y ! a) = retry_count (store s ! a)"
        by blast
      ultimately show ?thesis by auto
    qed
    with r(1-4) inv(1-3) show ?thesis
      unfolding remove by simp
  qed
qed

lemma handle_failure_True:
  assumes "retry_count j < max_retries j"
  shows "handle_failure True now msg j = (retry_job (fail_job now msg j), Some (2 powi (retry_count j + 1)))"
    and "status (retry_job (fail_job now msg j)) = ''pending''"
    and "retry_count (retry_job (fail_job now msg j)) = retry_count j + 1"
  using assms
  by (simp_all add: handle_failure_def Let_def can_retry_def retry_job_def fail_job_def)

lemma start_job_counts [simp]:
  "retry_count (start_job now j) = retry_count j" "max_retries (start_job now j) = max_retries j"
  by (simp_all add: start_job_def)

text \<open>
  The run of one pending job under one slot, with a generator that always raises: the task
  takes the slot and starts the job, the handler retries it and sleeps, and the recursive
  call waits for the slot that its caller holds.
\<close>

lemma single_job_deadlock:
  assumes j: "status j = ''pending''" "retry_count j < max_retries j"
    and p: "jobs p = [j]" "max_concurrent p = 1" "active_jobs p = []"
    and s0: "s0 = \<lparr>free = 1, store = [j], queue = [0], active = [id_job j \<mapsto> Some 0],
                  tasks = [new_task 0]\<rparr>"
    and s: "s = wake_task 0 (fail_task True t2 msg 0 (acquire_slot t1 0 s0))"
  shows "start_batch p = Some (Inr s0)"
    and "(step True (failing msg))\<^sup>*\<^sup>* s0 s"
    and "free s = 0 \<and> map pc (tasks s) = [Acquiring 1] \<and> map attempts (tasks s) = [1]
       \<and> map status (store s) = [''pending'']
       \<and> map retry_count (store s) = [retry_count j + 1]"
    and "(step True (failing msg))\<^sup>*\<^sup>* s s' \<Longrightarrow>
          free s' = 0 \<and> map pc (tasks s') = [Acquiring 1] \<and> map attempts (tasks s') = [1]
        \<and> (map status (store s') = [''pending''] \<or> map status (store s') = [''cancelled''])
        \<and> map retry_count (store s') = [retry_count j + 1]"
proof -
  define act :: "string \<rightharpoonup> nat option" where "act = [id_job j \<mapsto> Some 0]"
  define j' where "j' = retry_job (fail_job t2 msg (start_job t1 j))"
  define s1 where "s1 = acquire_slot t1 0 s0"
  define s2 where "s2 = fail_task True t2 msg 0 s1"
  have s3: "s = wake_task 0 s2"
    by (simp only: s s2_def s1_def)
  have s0': "s0 = \<lparr>free = 1, store = [j], queue = [0], active = act,
     tasks = [\<lparr>job_ref = 0, pc = Acquiring 0, attempts = 0\<rparr>]\<rparr>"
    by (simp add: s0 act_def new_task_def)
  have refs: "pending_refs p = [0]"
    by (simp add: pending_refs_def p j)
  show start: "start_batch p = Some (Inr s0)"
    by (simp add: start_batch_def pending_jobs_def refs p j s0 new_task_def)
  have e1: "s1 = \<lparr>free = 0, store = [start_job t1 j], queue = [0], active = act,
     tasks = [\<lparr>job_ref = 0, pc = Generating 1, attempts = 1\<rparr>]\<rparr>"
    by (simp add: s1_def s0' acquire_slot_def)
  have h: "handle_failure True t2 msg (start_job t1 j) = (j', Some (2 powi (retry_count j + 1)))"
    "status j' = ''pending''" "retry_count j' = retry_count j + 1"
    unfolding j'_def using handle_failure_True [of "start_job t1 j" t2 msg] j(2) by simp_all
  have e2: "s2 = \<lparr>free = 0, store = [j'], queue = [0], active = act,
     tasks = [\<lparr>job_ref = 0, pc = Backoff 1 (2 powi (retry_count j + 1)), attempts = 1\<rparr>]\<rparr>"
    by (simp add: s2_def e1 fail_task_def h(1))
  have e3: "s = \<lparr>free = 0, store = [j'], queue = [0], active = act,
     tasks = [\<lparr>job_ref = 0, pc = Acquiring 1, attempts = 1\<rparr>]\<rparr>"
    by (simp add: s3 e2 wake_task_def)
  have t1: "step True (failing msg) s0 s1"
    unfolding s1_def by (rule step.acquire [where d = 0]) (simp_all add: s0')
  have t2: "step True (failing msg) s1 s2"
    unfolding s2_def
    by (rule step.failure [where d = 1]) (simp_all add: e1 failing_def)
  have t3: "step True (failing msg) s2 s"
    unfolding s3
    by (rule step.wake [where d = 1 and delay = "2 powi (retry_count j + 1)"])
      (simp_all add: e2)
  from t1 have "(step True (failing msg))\<^sup>*\<^sup>* s0 s1" by (rule r_into_rtranclp)
  then have "(step True (failing msg))\<^sup>*\<^sup>* s0 s2" using t2 by (rule rtranclp.rtrancl_into_rtrancl)
  then show run: "(step True (failing msg))\<^sup>*\<^sup>* s0 s"
    using t3 by (rule rtranclp.rtrancl_into_rtrancl)
  show "free s = 0 \<and> map pc (tasks s) = [Acquiring 1] \<and> map attempts (tasks s) = [1]
       \<and> map status (store s) = [''pending'']
       \<and> map retry_count (store s) = [retry_count j + 1]"
    by (simp add: e3 h)
  show "free s' = 0 \<and> map pc (tasks s') = [Acquiring 1] \<and> map attempts (tasks s') = [1]
        \<and> (map status (store s') = [''pending''] \<or> map status (store s') = [''cancelled''])
        \<and> map retry_count (store s') = [retry_count j + 1]"
    if "(step True (failing msg))\<^sup>*\<^sup>* s s'"
  proof -
    from blocked_forever [OF that] 
    have b: "free s' = 0" "tasks s' = tasks s" "length (store s') = length (store s)"
      "status (store s' ! 0) = ''pending'' \<or> status (store s' ! 0) = ''cancelled''"
      "retry_count (store s' ! 0) = retry_count (store s ! 0)"
      by (simp_all add: e3 h)
    from b(3) obtain x where x: "store s' = [x]"
      by (cases "store s'") (simp_all add: e3)
    with b show ?thesis by (simp add: e3 h)
  qed
qed

text \<open>
  Claim C2 says that a job whose every execution fails is attempted \<^verbatim>\<open>max_retries + 1\<close>
  times and ends as \<^verbatim>\<open>failed\<close>. The retry is a recursive call made inside
  \<^verbatim>\<open>async with semaphore\<close>, so a retried task needs a second slot while it holds the
  first. A processor with one slot runs one new job (\<^verbatim>\<open>max_retries = 2\<close>) with
  \<^verbatim>\<open>auto_retry\<close> on and a generator that always raises: after the first failure the job
  is \<^verbatim>\<open>pending\<close> with \<^verbatim>\<open>retry_count = 1\<close> and its task waits for a slot while none is
  free; in every state the run can still reach, the job has been attempted once, has
  \<^verbatim>\<open>retry_count = 1\<close> and is \<^verbatim>\<open>pending\<close> or \<^verbatim>\<open>cancelled\<close>, never \<^verbatim>\<open>failed\<close>.
\<close>

theorem retry_deadlock:
  "\<exists>w s0 s.
     w = snd (add_job ''20240101_100000'' ''2024-01-01T10:00:00.100000'' ''a.png'' ''one''
                ''haiper_20'' None 1
                (init_processor ''2024-01-01T09:00:00'' 1 True ''ledger'' [''a.png'' \<mapsto> Other],
                 [''a.png'' \<mapsto> Other]))
   \<and> map max_retries (jobs (fst w)) = [2]
   \<and> start_batch (fst w) = Some (Inr s0)
   \<and> s = wake_task 0 (fail_task True ''2024-01-01T10:00:02'' ''boom'' 0
                         (acquire_slot ''2024-01-01T10:00:01'' 0 s0))
   \<and> (step True (failing ''boom''))\<^sup>*\<^sup>* s0 s
   \<and> free s = 0 \<and> map pc (tasks s) = [Acquiring 1] \<and> map attempts (tasks s) = [1]
   \<and> map status (store s) = [''pending'']
   \<and> map retry_count (store s) = [1]
   \<and> (\<forall>s'. (step True (failing ''boom''))\<^sup>*\<^sup>* s s' \<longrightarrow>
          free s' = 0 \<and> map pc (tasks s') = [Acquiring 1] \<and> map attempts (tasks s') = [1]
        \<and> (map status (store s') = [''pending''] \<or> map status (store s') = [''cancelled''])
        \<and> map retry_count (store s') = [1])"
proof -
  define F0 :: fs where "F0 = [''a.png'' \<mapsto> Other]"
  define w0 where "w0 = (init_processor ''2024-01-01T09:00:00'' 1 True ''ledger'' F0, F0)"
  define w where "w = snd (add_job ''20240101_100000'' ''2024-01-01T10:00:00.100000''
    ''a.png'' ''one'' ''haiper_20'' None 1 w0)"
  define J where "J = new_job ''2024-01-01T10:00:00.100000'' ''job_20240101_100000_000''
    ''a.png'' ''one'' ''haiper_20'' [] 1 (1 / 5)"
  have i0: "snd w0 ''a.png'' \<noteq> None" "batch_file (fst w0) = ''ledger''"
    "max_concurrent (fst w0) = 1" "active_jobs (fst w0) = []" "jobs (fst w0) = []"
    by (simp_all add: w0_def F0_def init_processor_new)
  have a1: "snd w0 ''a.png'' \<noteq> None" "strip ''one'' \<noteq> []" "''a.png'' \<noteq> batch_file (fst w0)"
    using i0 strip_words by simp_all
  have i1: "max_concurrent (fst w) = 1" "active_jobs (fst w) = []" "jobs (fst w) = [J]"
    unfolding w_def using add_job_haiper_world [OF a1] i0
    by (simp_all add: J_def sort_reverse_def)
  have m: "map max_retries (jobs (fst w)) = [2]"
    by (simp add: i1 J_def)
  have j: "status J = ''pending''" "retry_count J < max_retries J" "retry_count J + 1 = 1"
    by (simp_all add: J_def)
  define s0 where "s0 = \<lparr>free = 1, store = [J], queue = [0],
    active = [id_job J \<mapsto> Some 0], tasks = [new_task 0]\<rparr>"
  define s where "s = wake_task 0 (fail_task True ''2024-01-01T10:00:02'' ''boom'' 0
                         (acquire_slot ''2024-01-01T10:00:01'' 0 s0))"
  note d = single_job_deadlock [OF j(1,2) i1(3,1,2) s0_def s_def, unfolded j(3)]
  have stuck: "\<forall>s'. (step True (failing ''boom''))\<^sup>*\<^sup>* s s' \<longrightarrow>
          free s' = 0 \<and> map pc (tasks s') = [Acquiring 1] \<and> map attempts (tasks s') = [1]
        \<and> (map status (store s') = [''pending''] \<or> map status (store s') = [''cancelled''])
        \<and> map retry_count (store s') = [1]"
    by (intro allI impI) (rule d(4))
  note run = d(1) s_def d(2) d(3) stuck
  note fin = m run
  note fin' = fin [unfolded w_def w0_def F0_def]
  show ?thesis
    apply (rule exI, rule exI [of _ s0], rule exI [of _ s])
    apply (rule conjI, rule refl)
    apply (intro conjI)
    apply (rule fin' conjunct1 [OF fin'(5)] conjunct1 [OF conjunct2 [OF fin'(5)]]
         conjunct1 [OF conjunct2 [OF conjunct2 [OF fin'(5)]]]
         conjunct1 [OF conjunct2 [OF conjunct2 [OF conjunct2 [OF fin'(5)]]]]
         conjunct2 [OF conjunct2 [OF conjunct2 [OF conjunct2 [OF fin'(5)]]]])+
    done
qed

text \<open>
  The theorem at a state that the blocked run reaches: \<^verbatim>\<open>remove_job\<close> is called for the
  job.
\<close>

theorem retry_deadlock_witness:
  "\<exists>w s0 s.
     w = snd (add_job ''20240101_100000'' ''2024-01-01T10:00:00.100000'' ''a.png'' ''one''
                ''haiper_20'' None 1
                (init_processor ''2024-01-01T09:00:00'' 1 True ''ledger'' [''a.png'' \<mapsto> Other],
                 [''a.png'' \<mapsto> Other]))
   \<and> start_batch (fst w) = Some (Inr s0)
   \<and> s = wake_task 0 (fail_task True ''2024-01-01T10:00:02'' ''boom'' 0
                         (acquire_slot ''2024-01-01T10:00:01'' 0 s0))
   \<and> (step True (failing ''boom''))\<^sup>*\<^sup>* s
         (remove_running ''2024-01-01T10:00:03'' ''job_20240101_100000_000'' s)
   \<and> free (remove_running ''2024-01-01T10:00:03'' ''job_20240101_100000_000'' s) = 0
   \<and> map pc (tasks (remove_running ''2024-01-01T10:00:03'' ''job_20240101_100000_000'' s))
       = [Acquiring 1]
   \<and> map attempts (tasks (remove_running ''2024-01-01T10:00:03'' ''job_20240101_100000_000'' s))
       = [1]
   \<and> map retry_count (store (remove_running ''2024-01-01T10:00:03'' ''job_20240101_100000_000'' s))
       = [1]"
proof -
  from retry_deadlock obtain w s0 s where
    *: "w = snd (add_job ''20240101_100000'' ''2024-01-01T10:00:00.100000'' ''a.png'' ''one''
                ''haiper_20'' None 1
                (init_processor ''2024-01-01T09:00:00'' 1 True ''ledger'' [''a.png'' \<mapsto> Other],
                 [''a.png'' \<mapsto> Other]))"
      "start_batch (fst w) = Some (Inr s0)"
      "s = wake_task 0 (fail_task True ''2024-01-01T10:00:02'' ''boom'' 0
                         (acquire_slot ''2024-01-01T10:00:01'' 0 s0))"
      "\<forall>s'. (step True (failing ''boom''))\<^sup>*\<^sup>* s s' \<longrightarrow>
          free s' = 0 \<and> map pc (tasks s') = [Acquiring 1] \<and> map attempts (tasks s') = [1]
        \<and> (map status (store s') = [''pending''] \<or> map status (store s') = [''cancelled''])
        \<and> map retry_count (store s') = [1]"
    by (elim exE conjE) (rule that; assumption)
  have r: "(step True (failing ''boom''))\<^sup>*\<^sup>* s
         (remove_running ''2024-01-01T10:00:03'' ''job_20240101_100000_000'' s)"
    by (rule r_into_rtranclp) (rule step.remove)
  from *(4) [rule_format, OF r] *(1,2,3) r show ?thesis
    by (intro exI [of _ w] exI [of _ s0] exI [of _ s]) (simp only: simp_thms)
qed

section \<open>A batch run: a cancelled job\<close>

text \<open>
  A pending job that \<^verbatim>\<open>remove_job\<close> cancels while its task waits for a slot is started
  all the same when the task gets the slot: its status goes from \<^verbatim>\<open>cancelled\<close> to
  \<^verbatim>\<open>processing\<close>.
\<close>

lemma cancelled_job_is_started:
  assumes "status j = ''pending''"
    and "s0 = \<lparr>free = 1, store = [j], queue = [0], active = [id_job j \<mapsto> Some 0],
               tasks = [new_task 0]\<rparr>"
    and "s1 = remove_running now (id_job j) s0"
    and "s2 = acquire_slot now' 0 s1"
  shows "(step auto_retry gen)\<^sup>*\<^sup>* s0 s2"
    and "store s1 = [cancel_job now j]" and "queue s1 = []"
    and "map status (store s1) = [''cancelled'']"
    and "store s2 = [start_job now' (cancel_job now j)]"
    and "map status (store s2) = [''processing'']"
proof -
  have e1: "s1 = \<lparr>free = 1, store = [cancel_job now j], queue = [],
      active = [id_job j \<mapsto> Some 0], tasks = [new_task 0]\<rparr>"
    by (simp add: assms(1,2,3) remove_running_def)
  have e2: "s2 = \<lparr>free = 0, store = [start_job now' (cancel_job now j)], queue = [],
      active = [id_job j \<mapsto> Some 0],
      tasks = [\<lparr>job_ref = 0, pc = Generating 1, attempts = 1\<rparr>]\<rparr>"
    by (simp add: assms(4) e1 acquire_slot_def new_task_def)
  have "step auto_retry gen s0 s1"
    unfolding assms(3) by (rule step.remove)
  moreover have "step auto_retry gen s1 s2"
    unfolding assms(4) by (rule step.acquire [where d = 0]) (simp_all add: e1 new_task_def)
  ultimately show "(step auto_retry gen)\<^sup>*\<^sup>* s0 s2"
    by (rule converse_rtranclp_into_rtranclp [OF _ r_into_rtranclp])
  show "store s1 = [cancel_job now j]" "queue s1 = []" "map status (store s1) = [''cancelled'']"
    by (simp_all add: e1)
  show "store s2 = [start_job now' (cancel_job now j)]" "map status (store s2) = [''processing'']"
    by (simp_all add: e2)
qed

end
